theory Spec2Isabelle
  imports Main "HOL-Library.Signed_Division"
begin

section \<open>The editor stand-in: \<^verbatim>\<open>src/fakeeditor/src/main.zig\<close>\<close>

text \<open>
  The program is one sequential function, \<^verbatim>\<open>main\<close>, with three helpers. It talks to
  the operating system only: it prints to two buffered streams, reads its process
  context, and then polls a clock, its parent and one file. The model passes the two
  streams along explicitly and takes every answer of the operating system from an
  environment value, so that a run of the program is a function of that environment.
  Memory (the allocator, \<^verbatim>\<open>argsFree\<close>, \<^verbatim>\<open>free\<close>) and the closing of Windows handles
  have no effect on what the properties below are about and are left out.
\<close>

subsection \<open>Constants and errors\<close>

text \<open>A Zig error value is identified by its name: \<^verbatim>\<open>error.FileNotFound\<close> is the name
  \<^verbatim>\<open>FileNotFound\<close>.\<close>

type_synonym zig_error = string

text \<open>The values of \<^verbatim>\<open>builtin.os.tag\<close> that the \<^verbatim>\<open>switch\<close> at the head of \<^verbatim>\<open>main\<close>
  accepts; any other target is a compile error.\<close>

datatype os_tag = Linux | Windows | Macos | Freebsd | Netbsd | Openbsd | Dragonfly

definition POLLING_INTERVAL_MS :: nat where
  "POLLING_INTERVAL_MS = 50"

definition TOTAL_TIMEOUT_MS :: nat where
  "TOTAL_TIMEOUT_MS = 5000"

text \<open>\<^verbatim>\<open>std.time.ns_per_ms\<close>.\<close>

definition ns_per_ms :: nat where
  "ns_per_ms = 1000000"

text \<open>The Windows constants the source compares against.\<close>

definition WAIT_OBJECT_0 :: nat where
  "WAIT_OBJECT_0 = 0"

definition WAIT_TIMEOUT :: nat where
  "WAIT_TIMEOUT = 258"

definition WAIT_FAILED :: nat where
  "WAIT_FAILED = 4294967295"

definition ERROR_NO_MORE_FILES :: nat where
  "ERROR_NO_MORE_FILES = 18"

subsection \<open>Formatting\<close>

definition nl :: string where
  "nl = [CHR 0x0A]"

text \<open>The \<^verbatim>\<open>{}\<close> format of an integer: decimal digits, a minus sign when negative.\<close>

definition digit :: "nat \<Rightarrow> char" where
  "digit d = ''0123456789'' ! d"

fun digits :: "nat \<Rightarrow> string" where
  "digits n = (if n < 10 then [digit n] else digits (n div 10) @ [digit (n mod 10)])"

declare digits.simps [simp del]

definition fmt_int :: "int \<Rightarrow> string" where
  "fmt_int i = (if i < 0 then CHR ''-'' # digits (nat (- i)) else digits (nat i))"

text \<open>The \<^verbatim>\<open>{any}\<close> format of an error value.\<close>

definition fmt_error :: "zig_error \<Rightarrow> string" where
  "fmt_error e = ''error.'' @ e"

text \<open>\<^verbatim>\<open>std.fs.path.sep\<close>.\<close>

definition path_sep :: "os_tag \<Rightarrow> char" where
  "path_sep t = (if t = Windows then CHR 0x5C else CHR ''/'')"

subsection \<open>Buffered writers\<close>

text \<open>
  \<^verbatim>\<open>stdout\<close> and \<^verbatim>\<open>stderr\<close> are writers over a 1024-byte buffer each. Printing
  appends to the buffer; text reaches the file descriptor only when the buffer cannot
  take a message (it is drained) or on \<^verbatim>\<open>flush\<close>. Whether the descriptor accepts
  bytes is a property of the environment (\<open>writable\<close>); a refused write is the error
  \<^verbatim>\<open>WriteFailed\<close>. The model keeps the order of all bytes exact
  (\<open>written w @ buffer w\<close>) and drains a whole message at once.
\<close>

record writer =
  buffer :: string
  written :: string
  writable :: bool

definition BUFFER_SIZE :: nat where
  "BUFFER_SIZE = 1024"

definition new_writer :: "bool \<Rightarrow> writer" where
  "new_writer ok = \<lparr>buffer = [], written = [], writable = ok\<rparr>"

definition print :: "writer \<Rightarrow> string \<Rightarrow> zig_error + writer" where
  "print w s =
     (if length (buffer w) + length s \<le> BUFFER_SIZE then Inr (w\<lparr>buffer := buffer w @ s\<rparr>)
      else if writable w then Inr (w\<lparr>buffer := [], written := written w @ buffer w @ s\<rparr>)
      else Inl ''WriteFailed'')"

definition flush :: "writer \<Rightarrow> zig_error + writer" where
  "flush w =
     (if buffer w = [] then Inr w
      else if writable w then Inr (w\<lparr>buffer := [], written := written w @ buffer w\<rparr>)
      else Inl ''WriteFailed'')"

text \<open>\<^verbatim>\<open>w.flush() catch {}\<close>: a failed flush is ignored.\<close>

definition flush_catch :: "writer \<Rightarrow> writer" where
  "flush_catch w = (case flush w of Inl e \<Rightarrow> w | Inr w' \<Rightarrow> w')"

record streams =
  stdout :: writer
  stderr :: writer

subsection \<open>How a run ends\<close>

text \<open>
  The process ends either in \<^verbatim>\<open>flushAndExit\<close> or because \<^verbatim>\<open>main\<close> returns an error
  (every \<^verbatim>\<open>try\<close>); the Zig runtime turns a returned error into exit status 1. The
  first four outcomes are the names the specification gives to the \<^verbatim>\<open>flushAndExit\<close>
  call sites; \<open>ErrorReturn\<close> is the error return.
\<close>

datatype outcome = Completed | Timeout | ParentGone | SetupError | ErrorReturn zig_error

record process_end =
  outcome :: outcome
  exit_status :: nat
  final :: streams

text \<open>\<^verbatim>\<open>flushAndExit(stdout, stderr, code)\<close>. The first argument of the model is not in the
  source: it records at which call site the process ended.\<close>

definition flushAndExit :: "outcome \<Rightarrow> streams \<Rightarrow> nat \<Rightarrow> process_end" where
  "flushAndExit oc io code =
     \<lparr>outcome = oc, exit_status = code,
      final = \<lparr>stdout = flush_catch (stdout io), stderr = flush_catch (stderr io)\<rparr>\<rparr>"

definition error_return :: "zig_error \<Rightarrow> streams \<Rightarrow> process_end" where
  "error_return e io = \<lparr>outcome = ErrorReturn e, exit_status = 1, final = io\<rparr>"

subsection \<open>The environment\<close>

text \<open>One entry of the Windows process snapshot (\<^verbatim>\<open>PROCESSENTRY32\<close>).\<close>

record process_entry =
  th32ProcessID :: int
  th32ParentProcessID :: int

text \<open>
  What the operating system answers once, at startup. \<open>arg0\<close> is the program name and
  \<open>arguments\<close> what the launcher passed after it: \<^verbatim>\<open>std.process.argsAlloc\<close> returns
  the whole argument vector, the program name first. \<open>path_join\<close> is
  \<^verbatim>\<open>std.fs.path.join\<close> with the page allocator. \<open>snapshot_entries\<close> are the entries
  that \<^verbatim>\<open>Process32First\<close> and \<^verbatim>\<open>Process32Next\<close> yield, in order, and \<open>last_error\<close>
  is \<^verbatim>\<open>GetLastError()\<close> after the call of the walk that failed.
\<close>

record environment =
  os :: os_tag
  own_pid :: int
  stdout_writable :: bool
  stderr_writable :: bool
  getcwd :: "zig_error + string"
  args_error :: "zig_error option"
  arg0 :: string
  arguments :: "string list"
  getEnvVarOwned :: "string \<Rightarrow> zig_error + string"
  path_join :: "string list \<Rightarrow> zig_error + string"
  start_clock :: int
  getppid :: int
  snapshot_valid :: bool
  snapshot_entries :: "process_entry list"
  last_error :: nat

definition argsAlloc :: "environment \<Rightarrow> zig_error + string list" where
  "argsAlloc env =
     (case args_error env of Some e \<Rightarrow> Inl e | None \<Rightarrow> Inr (arg0 env # arguments env))"

text \<open>
  What the operating system answers during one iteration of the wait loop: the clock,
  the probe of a process with a signal (POSIX), the two calls of the Windows probe,
  and the access check of a path.
\<close>

record tick_env =
  nanoTimestamp :: int
  kill :: "int \<Rightarrow> nat \<Rightarrow> zig_error option"
  OpenProcess :: "int \<Rightarrow> bool"
  WaitForSingleObject :: nat
  GetLastError :: nat
  accessAbsolute :: "string \<Rightarrow> zig_error option"

subsection \<open>The Windows helpers\<close>

definition msg_wait_failed :: "nat \<Rightarrow> string" where
  "msg_wait_failed err = ''WaitForSingleObject failed: '' @ digits err @ nl"

text \<open>\<^verbatim>\<open>parentProcessExistsWindows\<close>: \<open>Inl\<close> is the error of the \<^verbatim>\<open>try\<close>; otherwise
  the answer and the diagnostic writer.\<close>

definition parentProcessExistsWindows :: "tick_env \<Rightarrow> int \<Rightarrow> writer \<Rightarrow> zig_error + bool \<times> writer" where
  "parentProcessExistsWindows te parent_pid err_w =
     (if \<not> OpenProcess te parent_pid then Inr (False, err_w)
      else let wait_status = WaitForSingleObject te in
        if wait_status = WAIT_OBJECT_0 then Inr (False, err_w)
        else if wait_status = WAIT_TIMEOUT then Inr (True, err_w)
        else (case print err_w (msg_wait_failed (GetLastError te)) of
                Inl e \<Rightarrow> Inl e
              | Inr w \<Rightarrow> Inr (False, w)))"

definition msg_snapshot_failed :: "nat \<Rightarrow> string" where
  "msg_snapshot_failed err = ''CreateToolhelp32Snapshot failed: '' @ digits err @ nl"

definition msg_first_failed :: "nat \<Rightarrow> string" where
  "msg_first_failed err = ''Process32First failed: '' @ digits err @ nl"

definition msg_next_failed :: "nat \<Rightarrow> string" where
  "msg_next_failed err = ''Process32Next failed: '' @ digits err @ nl"

definition msg_parent_zero :: "int \<Rightarrow> string" where
  "msg_parent_zero pid =
     ''Error: Retrieved parent PID is 0 for process '' @ fmt_int pid @ ''. This is unexpected.'' @ nl"

text \<open>A helper that prints a message and then returns an error, as
  \<^verbatim>\<open>try stderr.print(...); return error.X;\<close> does: the error of a failed print wins.\<close>

definition print_then_fail :: "writer \<Rightarrow> string \<Rightarrow> zig_error \<Rightarrow> (zig_error + int) \<times> writer" where
  "print_then_fail w s e = (case print w s of Inl pe \<Rightarrow> (Inl pe, w) | Inr w' \<Rightarrow> (Inl e, w'))"

text \<open>The \<^verbatim>\<open>while (true)\<close> walk of \<^verbatim>\<open>getParentPidWindows\<close> over the entries that are
  left; the empty list is \<^verbatim>\<open>Process32Next\<close> returning 0.\<close>

fun snapshot_walk :: "int \<Rightarrow> nat \<Rightarrow> process_entry list \<Rightarrow> writer \<Rightarrow> (zig_error + int) \<times> writer" where
  "snapshot_walk current_pid err [] w =
     (if err = ERROR_NO_MORE_FILES then (Inl ''ParentNotFound'', w)
      else print_then_fail w (msg_next_failed err) ''Process32NextFailed'')"
| "snapshot_walk current_pid err (pe32 # rest) w =
     (if th32ProcessID pe32 = current_pid then
        (if th32ParentProcessID pe32 = 0
         then print_then_fail w (msg_parent_zero current_pid) ''ParentIsSystemIdleProcess''
         else (Inr (th32ParentProcessID pe32), w))
      else snapshot_walk current_pid err rest w)"

definition getParentPidWindows :: "environment \<Rightarrow> writer \<Rightarrow> (zig_error + int) \<times> writer" where
  "getParentPidWindows env w =
     (if \<not> snapshot_valid env
      then print_then_fail w (msg_snapshot_failed (last_error env)) ''SnapshotFailed''
      else case snapshot_entries env of
        [] \<Rightarrow> print_then_fail w (msg_first_failed (last_error env)) ''Process32FirstFailed''
      | pe32 # rest \<Rightarrow> snapshot_walk (own_pid env) (last_error env) (pe32 # rest) w)"

subsection \<open>The identity block\<close>

definition envVarName :: string where
  "envVarName = ''JJ_FAKEEDITOR_SIGNAL_DIR''"

definition sentinel :: string where
  "sentinel = ''FAKEEDITOR_OUTPUT_END''"

definition msg_env_error :: "zig_error \<Rightarrow> string" where
  "msg_env_error err =
     ''Error getting environment variable '' @ [CHR 0x27] @ envVarName @ [CHR 0x27]
       @ '': '' @ fmt_error err @ nl"

text \<open>The \<^verbatim>\<open>for (args) |arg|\<close> loop: one line for each entry, stopping at the first
  failed print (\<open>Inl\<close>, with the writer as it is then).\<close>

fun print_args :: "writer \<Rightarrow> string list \<Rightarrow> zig_error \<times> writer + writer" where
  "print_args w [] = Inr w"
| "print_args w (arg # rest) =
     (case print w (arg @ nl) of Inl e \<Rightarrow> Inl (e, w) | Inr w' \<Rightarrow> print_args w' rest)"

text \<open>
  Lines 96 to 123 of \<^verbatim>\<open>main\<close>: the process id, the working directory, the argument
  vector, then the lookup of the environment variable, then the sentinel and the flush.
  \<open>Inl\<close> is a run that ended here; \<open>Inr\<close> carries the streams and the signal directory.
\<close>

definition announce :: "environment \<Rightarrow> process_end + streams \<times> string" where
  "announce env =
     (let io = \<lparr>stdout = new_writer (stdout_writable env),
                stderr = new_writer (stderr_writable env)\<rparr> in
      case print (stdout io) (fmt_int (own_pid env) @ nl) of
        Inl e \<Rightarrow> Inl (error_return e io)
      | Inr w1 \<Rightarrow>
      (case getcwd env of
        Inl e \<Rightarrow> Inl (error_return e (io\<lparr>stdout := w1\<rparr>))
      | Inr cwd \<Rightarrow>
      (case print w1 (cwd @ nl) of
        Inl e \<Rightarrow> Inl (error_return e (io\<lparr>stdout := w1\<rparr>))
      | Inr w2 \<Rightarrow>
      (case argsAlloc env of
        Inl e \<Rightarrow> Inl (error_return e (io\<lparr>stdout := w2\<rparr>))
      | Inr args \<Rightarrow>
      (case print_args w2 args of
        Inl (e, w) \<Rightarrow> Inl (error_return e (io\<lparr>stdout := w\<rparr>))
      | Inr w3 \<Rightarrow>
      (case getEnvVarOwned env envVarName of
        Inl err \<Rightarrow>
          (case print (stderr io) (msg_env_error err) of
             Inl e \<Rightarrow> Inl (error_return e (io\<lparr>stdout := w3\<rparr>))
           | Inr ew \<Rightarrow> Inl (flushAndExit SetupError (io\<lparr>stdout := w3, stderr := ew\<rparr>) 1))
      | Inr signal_dir_path_owned \<Rightarrow>
      (case print w3 (sentinel @ nl) of
        Inl e \<Rightarrow> Inl (error_return e (io\<lparr>stdout := w3\<rparr>))
      | Inr w4 \<Rightarrow>
      (case flush w4 of
        Inl e \<Rightarrow> Inl (error_return e (io\<lparr>stdout := w4\<rparr>))
      | Inr w5 \<Rightarrow> Inr (io\<lparr>stdout := w5\<rparr>, signal_dir_path_owned)))))))))"

subsection \<open>Setting up the wait\<close>

definition msg_join_error :: "os_tag \<Rightarrow> string \<Rightarrow> zig_error \<Rightarrow> string" where
  "msg_join_error t dir e =
     ''Critical Error: Failed to construct signal file path '' @ [CHR 0x27] @ dir @ [path_sep t]
       @ ''0'' @ [CHR 0x27] @ '': '' @ fmt_error e @ ''. Exiting fakeeditor.'' @ nl"

definition msg_monitoring_disabled :: "zig_error \<Rightarrow> string" where
  "msg_monitoring_disabled err =
     ''Warning: Failed to get parent PID on Windows: '' @ fmt_error err
       @ ''. Parent process monitoring will be disabled.'' @ nl"

definition msg_reparented :: string where
  "msg_reparented =
     ''Info: Parent process is init/launchd (PID 1), original parent likely exited. Exiting fakeeditor.''
       @ nl"

text \<open>The variables that \<^verbatim>\<open>main\<close> holds when it enters the loop. On Windows \<open>ppid\<close> has
  type \<^verbatim>\<open>void\<close> in the source, and so has \<open>win_ppid\<close> elsewhere; the model keeps 0.\<close>

record loop_vars =
  os_of :: os_tag
  start_time :: int
  signal_file_path :: string
  ppid :: int
  win_ppid :: int
  parent_monitoring_active :: bool

text \<open>Lines 127 to 130: the path of the signal file.\<close>

definition make_signal_path :: "environment \<Rightarrow> streams \<Rightarrow> string \<Rightarrow> process_end + string" where
  "make_signal_path env io signal_dir_path_owned =
     (case path_join env [signal_dir_path_owned, ''0''] of
        Inl e \<Rightarrow>
          (case print (stderr io) (msg_join_error (os env) signal_dir_path_owned e) of
             Inl pe \<Rightarrow> Inl (error_return pe io)
           | Inr ew \<Rightarrow> Inl (flushAndExit SetupError (io\<lparr>stderr := ew\<rparr>) 1))
      | Inr p \<Rightarrow> Inr p)"

text \<open>Lines 132 to 150: who the parent is. \<open>Inl\<close> is a run that ended here.\<close>

definition resolve_parent :: "environment \<Rightarrow> streams \<Rightarrow> string \<Rightarrow> process_end + streams \<times> loop_vars" where
  "resolve_parent env io p =
     (let vars = \<lparr>os_of = os env, start_time = start_clock env, signal_file_path = p,
                  ppid = 0, win_ppid = 0, parent_monitoring_active = True\<rparr> in
      if os env = Windows then
        (case getParentPidWindows env (stderr io) of
           (Inr parent, ew) \<Rightarrow> Inr (io\<lparr>stderr := ew\<rparr>, vars\<lparr>win_ppid := parent\<rparr>)
         | (Inl err, ew) \<Rightarrow>
             (case print ew (msg_monitoring_disabled err) of
                Inl pe \<Rightarrow> Inl (error_return pe (io\<lparr>stderr := ew\<rparr>))
              | Inr ew' \<Rightarrow>
                  Inr (io\<lparr>stderr := ew'\<rparr>, vars\<lparr>win_ppid := 0, parent_monitoring_active := False\<rparr>)))
      else
        (if getppid env = 1 then
           (case print (stderr io) msg_reparented of
              Inl pe \<Rightarrow> Inl (error_return pe io)
            | Inr ew \<Rightarrow> Inl (flushAndExit ParentGone (io\<lparr>stderr := ew\<rparr>) 1))
         else Inr (io, vars\<lparr>ppid := getppid env\<rparr>)))"

subsection \<open>One iteration of the wait loop\<close>

definition msg_timeout :: string where
  "msg_timeout =
     ''Error: Timeout ('' @ digits TOTAL_TIMEOUT_MS @ ''ms) reached in fakeeditor. Exiting.'' @ nl"

definition msg_parent_gone_windows :: "int \<Rightarrow> string" where
  "msg_parent_gone_windows p =
     ''Parent process (PID: '' @ fmt_int p @ '') no longer exists (Windows). Exiting.'' @ nl"

definition msg_parent_gone_posix :: "int \<Rightarrow> string" where
  "msg_parent_gone_posix p =
     ''Parent process (PID: '' @ fmt_int p @ '') no longer exists (POSIX). Exiting.'' @ nl"

definition msg_access_error :: "zig_error \<Rightarrow> string" where
  "msg_access_error err =
     ''Error checking for signal file '' @ [CHR 0x27] @ ''0'' @ [CHR 0x27] @ '' in fakeeditor: ''
       @ fmt_error err @ nl"

text \<open>\<^verbatim>\<open>@divTrunc(current_time - start_time, std.time.ns_per_ms)\<close> on \<^verbatim>\<open>i128\<close>: the
  quotient rounds towards zero. The timestamps are nanoseconds since the epoch, far
  inside the range of \<^verbatim>\<open>i128\<close>, so the model computes on \<open>int\<close>.\<close>

definition elapsed_ms :: "loop_vars \<Rightarrow> tick_env \<Rightarrow> int" where
  "elapsed_ms vars te = (nanoTimestamp te - start_time vars) sdiv int ns_per_ms"

text \<open>Lines 161 to 181, the parent check: \<open>Inl\<close> is a run that ended here, \<open>Inr\<close> the
  streams with which the iteration goes on.\<close>

definition parent_check :: "loop_vars \<Rightarrow> streams \<Rightarrow> tick_env \<Rightarrow> process_end + streams" where
  "parent_check vars io te =
     (if parent_monitoring_active vars then
        (if os_of vars = Windows then
           (case parentProcessExistsWindows te (win_ppid vars) (stderr io) of
              Inl e \<Rightarrow> Inl (error_return e io)
            | Inr (alive, ew) \<Rightarrow>
                if \<not> alive then
                  (case print ew (msg_parent_gone_windows (win_ppid vars)) of
                     Inl e \<Rightarrow> Inl (error_return e (io\<lparr>stderr := ew\<rparr>))
                   | Inr ew' \<Rightarrow> Inl (flushAndExit ParentGone (io\<lparr>stderr := ew'\<rparr>) 1))
                else Inr (io\<lparr>stderr := ew\<rparr>))
         else
           (case kill te (ppid vars) 0 of
              None \<Rightarrow> Inr io
            | Some err \<Rightarrow>
                if err = ''NoSuchProcess'' then
                  (case print (stderr io) (msg_parent_gone_posix (ppid vars)) of
                     Inl e \<Rightarrow> Inl (error_return e io)
                   | Inr ew \<Rightarrow> Inl (flushAndExit ParentGone (io\<lparr>stderr := ew\<rparr>) 1))
                else Inr io))
      else Inr io)"

text \<open>An iteration either ends the run or reaches \<^verbatim>\<open>std.Thread.sleep\<close>, with the
  number of nanoseconds it asks for.\<close>

datatype tick_result = Exit process_end | Sleep nat streams

text \<open>Lines 183 to 194, the signal check and the sleep.\<close>

definition signal_check :: "loop_vars \<Rightarrow> streams \<Rightarrow> tick_env \<Rightarrow> tick_result" where
  "signal_check vars io te =
     (case accessAbsolute te (signal_file_path vars) of
        None \<Rightarrow> Exit (flushAndExit Completed io 0)
      | Some err \<Rightarrow>
          if err \<noteq> ''FileNotFound'' then
            (case print (stderr io) (msg_access_error err) of
               Inl e \<Rightarrow> Exit (error_return e io)
             | Inr ew \<Rightarrow> Sleep (POLLING_INTERVAL_MS * ns_per_ms) (io\<lparr>stderr := ew\<rparr>))
          else Sleep (POLLING_INTERVAL_MS * ns_per_ms) io)"

text \<open>The body of \<^verbatim>\<open>while (true)\<close>, lines 153 to 194.\<close>

definition tick :: "loop_vars \<Rightarrow> streams \<Rightarrow> tick_env \<Rightarrow> tick_result" where
  "tick vars io te =
     (if elapsed_ms vars te \<ge> int TOTAL_TIMEOUT_MS then
        (case print (stderr io) msg_timeout of
           Inl e \<Rightarrow> Exit (error_return e io)
         | Inr ew \<Rightarrow> Exit (flushAndExit Timeout (io\<lparr>stderr := ew\<rparr>) 1))
      else
        (case parent_check vars io te of
           Inl ended \<Rightarrow> Exit ended
         | Inr io' \<Rightarrow> signal_check vars io' te))"

subsection \<open>The loop and the whole program\<close>

text \<open>
  \<^verbatim>\<open>while (true)\<close> has no bound of its own: it ends when the clock, the parent or the
  file says so. A run is given the answers of the operating system for finitely many
  iterations, one \<open>tick_env\<close> each; \<open>None\<close> means that the loop is still running when
  they are used up.
\<close>

fun wait_loop :: "loop_vars \<Rightarrow> streams \<Rightarrow> tick_env list \<Rightarrow> process_end option" where
  "wait_loop vars io [] = None"
| "wait_loop vars io (te # rest) =
     (case tick vars io te of
        Exit ended \<Rightarrow> Some ended
      | Sleep ns io' \<Rightarrow> wait_loop vars io' rest)"

definition main :: "environment \<Rightarrow> tick_env list \<Rightarrow> process_end option" where
  "main env ticks =
     (case announce env of
        Inl ended \<Rightarrow> Some ended
      | Inr (io, signal_dir_path_owned) \<Rightarrow>
      (case make_signal_path env io signal_dir_path_owned of
        Inl ended \<Rightarrow> Some ended
      | Inr p \<Rightarrow>
      (case resolve_parent env io p of
        Inl ended \<Rightarrow> Some ended
      | Inr (io', vars) \<Rightarrow> wait_loop vars io' ticks)))"

subsection \<open>Notions used to state the properties\<close>

text \<open>Everything a writer has been given, in order: what reached the descriptor and
  what is still in the buffer.\<close>

definition emitted :: "writer \<Rightarrow> string" where
  "emitted w = written w @ buffer w"

text \<open>The condition under which the parent check of one iteration finds the parent
  gone: on Windows the handle cannot be opened or the wait does not report a timeout; on
  the other systems the probe fails with \<^verbatim>\<open>error.NoSuchProcess\<close>.\<close>

definition parent_gone :: "loop_vars \<Rightarrow> tick_env \<Rightarrow> bool" where
  "parent_gone vars te =
     (if os_of vars = Windows
      then \<not> (OpenProcess te (win_ppid vars) \<and> WaitForSingleObject te = WAIT_TIMEOUT)
      else kill te (ppid vars) 0 = Some ''NoSuchProcess'')"

text \<open>Everything \<^verbatim>\<open>main\<close> does before \<^verbatim>\<open>while (true)\<close>, lines 88 to 150.\<close>

definition startup :: "environment \<Rightarrow> process_end + streams \<times> loop_vars" where
  "startup env =
     (case announce env of
        Inl ended \<Rightarrow> Inl ended
      | Inr (io, signal_dir_path_owned) \<Rightarrow>
      (case make_signal_path env io signal_dir_path_owned of
        Inl ended \<Rightarrow> Inl ended
      | Inr p \<Rightarrow> resolve_parent env io p))"

text \<open>The first three parts of the identity block, as the program prints them: its
  process id, the working directory, and one line for each entry of the argument vector.\<close>

definition identity_lines :: "environment \<Rightarrow> string \<Rightarrow> string" where
  "identity_lines env cwd =
     fmt_int (own_pid env) @ nl @ cwd @ nl @ concat (map (\<lambda>arg. arg @ nl) (arg0 env # arguments env))"

subsection \<open>A concrete run\<close>

text \<open>
  The scenario of the specification: the arguments \<^verbatim>\<open>--edit msg.txt\<close>, the signal
  directory \<^verbatim>\<open>/tmp/sig42\<close>, a live parent, and the signal file present from 200 ms on.
\<close>

definition example_env :: environment where
  "example_env =
     \<lparr>os = Linux, own_pid = 4242, stdout_writable = True, stderr_writable = True,
      getcwd = Inr ''/work'', args_error = None, arg0 = ''fakeeditor'',
      arguments = [''--edit'', ''msg.txt''],
      getEnvVarOwned = (\<lambda>name. if name = ''JJ_FAKEEDITOR_SIGNAL_DIR'' then Inr ''/tmp/sig42''
                                 else Inl ''EnvironmentVariableNotFound''),
      path_join = (\<lambda>paths. case paths of [a, b] \<Rightarrow> Inr (a @ ''/'' @ b) | _ \<Rightarrow> Inl ''OutOfMemory''),
      start_clock = 1000000000, getppid = 100, snapshot_valid = False, snapshot_entries = [],
      last_error = 0\<rparr>"

definition example_tick :: "int \<Rightarrow> bool \<Rightarrow> tick_env" where
  "example_tick ms created =
     \<lparr>nanoTimestamp = 1000000000 + ms * 1000000, kill = (\<lambda>pid sig. None),
      OpenProcess = (\<lambda>pid. True), WaitForSingleObject = 258, GetLastError = 0,
      accessAbsolute = (\<lambda>path. if created \<and> path = ''/tmp/sig42/0'' then None
                                 else Some ''FileNotFound'')\<rparr>"

definition example_ticks :: "tick_env list" where
  "example_ticks =
     [example_tick 0 False, example_tick 50 False, example_tick 100 False,
      example_tick 150 False, example_tick 200 True]"

definition example_stdout :: string where
  "example_stdout =
     ''4242'' @ nl @ ''/work'' @ nl @ ''fakeeditor'' @ nl @ ''--edit'' @ nl @ ''msg.txt'' @ nl
       @ ''FAKEEDITOR_OUTPUT_END'' @ nl"

definition example_streams :: streams where
  "example_streams =
     \<lparr>stdout = \<lparr>buffer = [], written = example_stdout, writable = True\<rparr>,
      stderr = \<lparr>buffer = [], written = [], writable = True\<rparr>\<rparr>"

definition example_end :: process_end where
  "example_end = \<lparr>outcome = Completed, exit_status = 0, final = example_streams\<rparr>"

text \<open>The same launch without the environment variable.\<close>

definition example_env_no_var :: environment where
  "example_env_no_var = example_env\<lparr>getEnvVarOwned := (\<lambda>name. Inl ''EnvironmentVariableNotFound'')\<rparr>"

definition example_no_var_end :: process_end where
  "example_no_var_end =
     \<lparr>outcome = SetupError, exit_status = 1,
      final = \<lparr>stdout = \<lparr>buffer = [],
                  written = ''4242'' @ nl @ ''/work'' @ nl @ ''fakeeditor'' @ nl @ ''--edit'' @ nl @ ''msg.txt'' @ nl,
                  writable = True\<rparr>,
               stderr = \<lparr>buffer = [], written = msg_env_error ''EnvironmentVariableNotFound'',
                  writable = True\<rparr>\<rparr>\<rparr>"

text \<open>The same launch from a working directory that has been removed.\<close>

definition example_env_cwd_unlinked :: environment where
  "example_env_cwd_unlinked = example_env\<lparr>getcwd := Inl ''CurrentWorkingDirectoryUnlinked''\<rparr>"

text \<open>The variables of the loop in the concrete run, and an iteration in which the
  parent has gone while the signal file is there.\<close>

definition example_vars :: loop_vars where
  "example_vars =
     \<lparr>os_of = Linux, start_time = 1000000000, signal_file_path = ''/tmp/sig42/0'',
      ppid = 100, win_ppid = 0, parent_monitoring_active = True\<rparr>"

definition example_tick_orphaned :: tick_env where
  "example_tick_orphaned = (example_tick 100 True)\<lparr>kill := (\<lambda>pid sig. Some ''NoSuchProcess'')\<rparr>"

text \<open>Iterations in which the access check fails for another reason than a missing
  file, and in which the probe of the parent is refused.\<close>

definition example_tick_access_denied :: tick_env where
  "example_tick_access_denied =
     (example_tick 100 False)\<lparr>accessAbsolute := (\<lambda>path. Some ''AccessDenied'')\<rparr>"

definition example_tick_probe_denied :: "int \<Rightarrow> bool \<Rightarrow> tick_env" where
  "example_tick_probe_denied ms created =
     (example_tick ms created)\<lparr>kill := (\<lambda>pid sig. Some ''PermissionDenied'')\<rparr>"

text \<open>The loop variables of a Windows run with a known parent, and an iteration in
  which the wait on the parent handle fails.\<close>

definition example_vars_windows :: loop_vars where
  "example_vars_windows =
     \<lparr>os_of = Windows, start_time = 1000000000, signal_file_path = ''C:/sig42/0'',
      ppid = 0, win_ppid = 77, parent_monitoring_active = True\<rparr>"

definition example_tick_wait_failed :: tick_env where
  "example_tick_wait_failed =
     (example_tick 100 False)\<lparr>WaitForSingleObject := WAIT_FAILED, GetLastError := 6\<rparr>"

text \<open>The same launch after the launcher has exited, so that the parent is process 1.\<close>

definition example_env_reparented :: environment where
  "example_env_reparented = example_env\<lparr>getppid := 1\<rparr>"

text \<open>A Windows launch in which the process snapshot cannot be taken.\<close>

definition example_env_windows :: environment where
  "example_env_windows = example_env\<lparr>os := Windows, last_error := 5\<rparr>"

section \<open>Basic facts\<close>

lemma flushAndExit_sel [simp]:
  "outcome (flushAndExit oc io code) = oc"
  "exit_status (flushAndExit oc io code) = code"
  "final (flushAndExit oc io code) =
     \<lparr>stdout = flush_catch (stdout io), stderr = flush_catch (stderr io)\<rparr>"
  by (simp_all add: flushAndExit_def)

lemma error_return_sel [simp]:
  "outcome (error_return e io) = ErrorReturn e"
  "exit_status (error_return e io) = 1"
  "final (error_return e io) = io"
  by (simp_all add: error_return_def)

lemma print_Inr: "print w s = Inr w' \<Longrightarrow> writable w' = writable w \<and> emitted w' = emitted w @ s"
  by (auto simp: print_def emitted_def split: if_splits)

lemma print_Inl: "print w s = Inl e \<Longrightarrow> e = ''WriteFailed'' \<and> \<not> writable w"
  by (auto simp: print_def split: if_splits)

lemma print_writable: "writable w \<Longrightarrow> \<exists>w'. print w s = Inr w'"
  by (simp add: print_def)

lemma flush_catch_writable:
  "writable w \<Longrightarrow> buffer (flush_catch w) = [] \<and> written (flush_catch w) = emitted w"
  by (simp add: flush_catch_def flush_def emitted_def)

lemma main_startup:
  "main env ticks =
     (case startup env of Inl ended \<Rightarrow> Some ended | Inr (io, vars) \<Rightarrow> wait_loop vars io ticks)"
  by (simp add: main_def startup_def split: sum.splits prod.splits)

subsection \<open>The concrete run, evaluated\<close>

lemma digits_4242: "digits 4242 = ''4242''"
  by (simp add: digits.simps digit_def)

lemma example_announce: "announce example_env = Inr (example_streams, ''/tmp/sig42'')"
  by (simp add: announce_def example_env_def Let_def print_def new_writer_def fmt_int_def
      digits_4242 nl_def argsAlloc_def envVarName_def sentinel_def flush_def BUFFER_SIZE_def
      example_streams_def example_stdout_def)

lemma example_startup:
  "startup example_env =
     Inr (example_streams,
          \<lparr>os_of = Linux, start_time = 1000000000, signal_file_path = ''/tmp/sig42/0'',
           ppid = 100, win_ppid = 0, parent_monitoring_active = True\<rparr>)"
  by (simp add: startup_def example_announce)
     (simp add: make_signal_path_def resolve_parent_def example_env_def Let_def)

lemma example_run: "main example_env example_ticks = Some example_end"
  by (simp add: main_startup example_startup example_ticks_def)
     (simp add: tick_def elapsed_ms_def example_tick_def parent_check_def signal_check_def
       ns_per_ms_def TOTAL_TIMEOUT_MS_def flushAndExit_def flush_catch_def flush_def
       example_end_def example_streams_def)

lemma example_no_var_run: "main example_env_no_var [] = Some example_no_var_end"
  by (simp add: main_def announce_def example_env_no_var_def example_env_def Let_def print_def
      new_writer_def fmt_int_def digits_4242 nl_def argsAlloc_def envVarName_def sentinel_def
      flush_def flush_catch_def flushAndExit_def BUFFER_SIZE_def example_no_var_end_def msg_env_error_def fmt_error_def)

section \<open>The exit status\<close>

lemma parent_check_Inl:
  "parent_check vars io te = Inl r \<Longrightarrow> exit_status r = 1 \<and> outcome r \<noteq> Completed"
  by (auto simp: parent_check_def split: if_splits sum.splits option.splits prod.splits)

lemma signal_check_Exit:
  "signal_check vars io te = Exit r \<Longrightarrow>
     (if outcome r = Completed
      then exit_status r = 0 \<and> accessAbsolute te (signal_file_path vars) = None
      else exit_status r = 1)"
  by (auto simp: signal_check_def split: if_splits sum.splits option.splits)

lemma tick_Exit:
  "tick vars io te = Exit r \<Longrightarrow>
     (if outcome r = Completed
      then exit_status r = 0 \<and> accessAbsolute te (signal_file_path vars) = None
      else exit_status r = 1)"
proof (cases "elapsed_ms vars te \<ge> int TOTAL_TIMEOUT_MS")
  case True
  assume "tick vars io te = Exit r"
  with True show ?thesis by (auto simp: tick_def split: sum.splits)
next
  case False
  assume t: "tick vars io te = Exit r"
  show ?thesis
  proof (cases "parent_check vars io te")
    case (Inl ended)
    with t False have "ended = r" by (simp add: tick_def)
    with Inl parent_check_Inl [of vars io te r] show ?thesis by simp
  next
    case (Inr io')
    with t False have "signal_check vars io' te = Exit r" by (simp add: tick_def)
    then show ?thesis by (rule signal_check_Exit)
  qed
qed

lemma wait_loop_Some:
  "wait_loop vars io ticks = Some r \<Longrightarrow>
     (if outcome r = Completed
      then exit_status r = 0 \<and> (\<exists>te \<in> set ticks. accessAbsolute te (signal_file_path vars) = None)
      else exit_status r = 1)"
proof (induction ticks arbitrary: io)
  case Nil
  then show ?case by simp
next
  case (Cons te rest)
  show ?case
  proof (cases "tick vars io te")
    case (Exit ended)
    with Cons.prems have "ended = r" by simp
    with Exit tick_Exit [of vars io te r] show ?thesis by (simp split: if_splits)
  next
    case (Sleep ns io')
    with Cons.prems have "wait_loop vars io' rest = Some r" by simp
    from Cons.IH [OF this] show ?thesis by (simp split: if_splits)
  qed
qed

lemma announce_Inl:
  "announce env = Inl r \<Longrightarrow> exit_status r = 1 \<and> outcome r \<noteq> Completed"
  by (auto simp: announce_def Let_def split: sum.splits prod.splits)

lemma announce_Inr_dir:
  "announce env = Inr (io, dir) \<Longrightarrow> getEnvVarOwned env envVarName = Inr dir"
  by (auto simp: announce_def Let_def split: sum.splits prod.splits)

lemma make_signal_path_Inl:
  "make_signal_path env io dir = Inl r \<Longrightarrow> exit_status r = 1 \<and> outcome r \<noteq> Completed"
  by (auto simp: make_signal_path_def split: sum.splits)

lemma make_signal_path_Inr:
  "make_signal_path env io dir = Inr p \<Longrightarrow> path_join env [dir, ''0''] = Inr p"
  by (auto simp: make_signal_path_def split: sum.splits)

lemma resolve_parent_Inl:
  "resolve_parent env io p = Inl r \<Longrightarrow> exit_status r = 1 \<and> outcome r \<noteq> Completed"
  by (auto simp: resolve_parent_def Let_def split: if_splits sum.splits prod.splits)

lemma resolve_parent_Inr:
  "resolve_parent env io p = Inr (io', vars) \<Longrightarrow>
     signal_file_path vars = p \<and> start_time vars = start_clock env \<and> os_of vars = os env"
  by (auto simp: resolve_parent_def Let_def split: if_splits sum.splits prod.splits)

lemma startup_Inl:
  "startup env = Inl r \<Longrightarrow> exit_status r = 1 \<and> outcome r \<noteq> Completed"
  by (auto simp: startup_def split: sum.splits prod.splits
      dest: announce_Inl make_signal_path_Inl resolve_parent_Inl)

lemma startup_Inr_path:
  "startup env = Inr (io, vars) \<Longrightarrow>
     \<exists>dir. getEnvVarOwned env envVarName = Inr dir \<and>
           path_join env [dir, ''0''] = Inr (signal_file_path vars)"
  by (auto simp: startup_def split: sum.splits prod.splits
      dest: announce_Inr_dir make_signal_path_Inr resolve_parent_Inr)

text \<open>
  Claim C1. In every run that ends, the exit status is 0 exactly when the outcome is
  \<open>Completed\<close>, and \<open>Completed\<close> is reached only when some iteration found the file
  \<^verbatim>\<open>0\<close> of the signal directory accessible. Every other end of a run, the error
  return of \<^verbatim>\<open>main\<close> included, has a non-zero status.
\<close>

theorem exit_status_zero_iff_completed:
  assumes "main env ticks = Some r"
  shows "(exit_status r = 0 \<longleftrightarrow> outcome r = Completed) \<and>
         (outcome r \<noteq> Completed \<longrightarrow> exit_status r = 1) \<and>
         (outcome r = Completed \<longrightarrow>
            (\<exists>dir p. getEnvVarOwned env envVarName = Inr dir \<and> path_join env [dir, ''0''] = Inr p \<and>
               (\<exists>te \<in> set ticks. accessAbsolute te p = None)))"
proof (cases "startup env")
  case (Inl ended)
  with assms have "ended = r" by (simp add: main_startup)
  with Inl startup_Inl [of env r] show ?thesis by simp
next
  case (Inr a)
  obtain io vars where a: "a = (io, vars)" by (cases a)
  note st = Inr [unfolded a]
  from assms st have "wait_loop vars io ticks = Some r" by (simp add: main_startup)
  from wait_loop_Some [OF this] startup_Inr_path [OF st]
  show ?thesis by (auto split: if_splits)
qed

theorem exit_status_zero_iff_completed_witness:
  "main example_env example_ticks = Some example_end \<and>
   exit_status example_end = 0 \<and> outcome example_end = Completed \<and>
   (\<exists>dir p te. getEnvVarOwned example_env envVarName = Inr dir \<and>
      path_join example_env [dir, ''0''] = Inr p \<and> te \<in> set example_ticks \<and>
      accessAbsolute te p = None) \<and>
   main example_env_no_var [] = Some example_no_var_end \<and>
   outcome example_no_var_end = SetupError \<and> exit_status example_no_var_end = 1"
proof -
  from exit_status_zero_iff_completed [OF example_run]
  have 1: "exit_status example_end = 0" "outcome example_end = Completed"
    "\<exists>dir p te. getEnvVarOwned example_env envVarName = Inr dir \<and>
      path_join example_env [dir, ''0''] = Inr p \<and> te \<in> set example_ticks \<and>
      accessAbsolute te p = None"
    by (auto simp: example_end_def)
  have o: "outcome example_no_var_end = SetupError" by (simp add: example_no_var_end_def)
  with exit_status_zero_iff_completed [OF example_no_var_run]
  have 2: "exit_status example_no_var_end = 1" by simp
  from example_run 1 example_no_var_run o 2 show ?thesis by (intro conjI)
qed

section \<open>The identity block\<close>

lemma emitted_new_writer [simp]: "emitted (new_writer ok) = []"
  by (simp add: emitted_def new_writer_def)

lemma print_args_Inr:
  "print_args w args = Inr w' \<Longrightarrow>
     writable w' = writable w \<and> emitted w' = emitted w @ concat (map (\<lambda>arg. arg @ nl) args)"
proof (induction args arbitrary: w)
  case Nil
  then show ?case by simp
next
  case (Cons arg rest)
  from Cons.prems obtain w1 where p: "print w (arg @ nl) = Inr w1" and r: "print_args w1 rest = Inr w'"
    by (auto split: sum.splits)
  from print_Inr [OF p] Cons.IH [OF r] show ?case by simp
qed

lemma flush_Inr: "flush w = Inr w' \<Longrightarrow> buffer w' = [] \<and> written w' = emitted w \<and> writable w' = writable w"
  by (auto simp: flush_def emitted_def split: if_splits)

lemma flush_catch_empty: "buffer w = [] \<Longrightarrow> flush_catch w = w"
  by (simp add: flush_catch_def flush_def)

lemma announce_Inr:
  assumes "announce env = Inr (io, dir)"
  shows "\<exists>cwd. getcwd env = Inr cwd \<and> args_error env = None \<and>
           getEnvVarOwned env envVarName = Inr dir \<and> buffer (stdout io) = [] \<and>
           written (stdout io) = identity_lines env cwd @ sentinel @ nl \<and>
           stderr io = new_writer (stderr_writable env)"
proof -
  let ?w0 = "new_writer (stdout_writable env)"
  from assms obtain w1 cwd w2 args w3 w4 w5 where
    p1: "print ?w0 (fmt_int (own_pid env) @ nl) = Inr w1" and
    cwd: "getcwd env = Inr cwd" and
    p2: "print w1 (cwd @ nl) = Inr w2" and
    args: "argsAlloc env = Inr args" and
    p3: "print_args w2 args = Inr w3" and
    var: "getEnvVarOwned env envVarName = Inr dir" and
    p4: "print w3 (sentinel @ nl) = Inr w4" and
    fl: "flush w4 = Inr w5" and
    io: "io = \<lparr>stdout = w5, stderr = new_writer (stderr_writable env)\<rparr>"
    by (auto simp: announce_def Let_def split: sum.splits prod.splits)
  from args have ae: "args_error env = None" and a: "args = arg0 env # arguments env"
    by (auto simp: argsAlloc_def split: option.splits)
  from print_Inr [OF p1] print_Inr [OF p2] print_args_Inr [OF p3] print_Inr [OF p4] flush_Inr [OF fl]
  have "written w5 = identity_lines env cwd @ sentinel @ nl" "buffer w5 = []"
    by (simp_all add: identity_lines_def a)
  with cwd ae var io show ?thesis by simp
qed

lemma parent_check_stdout:
  "buffer (stdout io) = [] \<Longrightarrow>
     (case parent_check vars io te of Inl r \<Rightarrow> stdout (final r) = stdout io
      | Inr io' \<Rightarrow> stdout io' = stdout io)"
  by (auto simp: parent_check_def flush_catch_empty split: if_splits sum.splits option.splits prod.splits)

lemma signal_check_stdout:
  "buffer (stdout io) = [] \<Longrightarrow>
     (case signal_check vars io te of Exit r \<Rightarrow> stdout (final r) = stdout io
      | Sleep ns io' \<Rightarrow> stdout io' = stdout io)"
  by (auto simp: signal_check_def flush_catch_empty split: if_splits sum.splits option.splits)

lemma tick_stdout:
  assumes "buffer (stdout io) = []"
  shows "(case tick vars io te of Exit r \<Rightarrow> stdout (final r) = stdout io
          | Sleep ns io' \<Rightarrow> stdout io' = stdout io)"
proof (cases "elapsed_ms vars te \<ge> int TOTAL_TIMEOUT_MS")
  case True
  with assms show ?thesis by (auto simp: tick_def flush_catch_empty split: sum.splits)
next
  case False
  show ?thesis
  proof (cases "parent_check vars io te")
    case (Inl ended)
    with False parent_check_stdout [OF assms, of vars te] show ?thesis by (simp add: tick_def)
  next
    case (Inr io')
    with parent_check_stdout [OF assms, of vars te] have eq: "stdout io' = stdout io" by simp
    with assms have "buffer (stdout io') = []" by simp
    from signal_check_stdout [OF this, of vars te] eq Inr False show ?thesis
      by (simp add: tick_def split: tick_result.splits)
  qed
qed

lemma wait_loop_stdout:
  "buffer (stdout io) = [] \<Longrightarrow> wait_loop vars io ticks = Some r \<Longrightarrow> stdout (final r) = stdout io"
proof (induction ticks arbitrary: io)
  case Nil
  then show ?case by simp
next
  case (Cons te rest)
  show ?case
  proof (cases "tick vars io te")
    case (Exit ended)
    with Cons.prems tick_stdout [OF Cons.prems(1), of vars te] show ?thesis by simp
  next
    case (Sleep ns io')
    with tick_stdout [OF Cons.prems(1), of vars te] have eq: "stdout io' = stdout io" by simp
    from Sleep Cons.prems have "wait_loop vars io' rest = Some r" by simp
    with Cons.IH [of io'] eq Cons.prems(1) show ?thesis by simp
  qed
qed

lemma make_signal_path_stdout:
  "buffer (stdout io) = [] \<Longrightarrow> make_signal_path env io dir = Inl r \<Longrightarrow> stdout (final r) = stdout io"
  by (auto simp: make_signal_path_def flush_catch_empty split: sum.splits)

lemma resolve_parent_stdout:
  "buffer (stdout io) = [] \<Longrightarrow>
     (case resolve_parent env io p of Inl r \<Rightarrow> stdout (final r) = stdout io
      | Inr (io', vars) \<Rightarrow> stdout io' = stdout io)"
  by (auto simp: resolve_parent_def Let_def flush_catch_empty split: if_splits sum.splits prod.splits)

lemma identity_block_after_announce:
  assumes "announce env = Inr (io, dir)"
  shows "getEnvVarOwned env envVarName = Inr dir \<and>
         (\<exists>cwd. getcwd env = Inr cwd \<and>
            written (stdout io) = identity_lines env cwd @ sentinel @ nl) \<and>
         buffer (stdout io) = [] \<and>
         main env ticks =
           (case make_signal_path env io dir of
              Inl ended \<Rightarrow> Some ended
            | Inr p \<Rightarrow> (case resolve_parent env io p of
                Inl ended \<Rightarrow> Some ended
              | Inr (io', vars) \<Rightarrow> wait_loop vars io' ticks)) \<and>
         (\<forall>r. main env ticks = Some r \<longrightarrow> stdout (final r) = stdout io)"
proof -
  from announce_Inr [OF assms] obtain cwd where
    c: "getcwd env = Inr cwd" "getEnvVarOwned env envVarName = Inr dir"
       "written (stdout io) = identity_lines env cwd @ sentinel @ nl" and
    b: "buffer (stdout io) = []"
    by blast
  have m: "main env ticks =
           (case make_signal_path env io dir of
              Inl ended \<Rightarrow> Some ended
            | Inr p \<Rightarrow> (case resolve_parent env io p of
                Inl ended \<Rightarrow> Some ended
              | Inr (io', vars) \<Rightarrow> wait_loop vars io' ticks))"
    using assms by (simp add: main_def)
  have "stdout (final r) = stdout io" if r: "main env ticks = Some r" for r
  proof (cases "make_signal_path env io dir")
    case (Inl ended)
    with r m make_signal_path_stdout [OF b, of env dir ended] show ?thesis by simp
  next
    case path: (Inr p)
    show ?thesis
    proof (cases "resolve_parent env io p")
      case (Inl ended)
      with r m path resolve_parent_stdout [OF b, of env p] show ?thesis by simp
    next
      case (Inr a)
      obtain io' vars where a: "a = (io', vars)" by (cases a)
      from Inr a resolve_parent_stdout [OF b, of env p] have eq: "stdout io' = stdout io" by simp
      from r m path Inr a have "wait_loop vars io' ticks = Some r" by simp
      from wait_loop_stdout [OF _ this] eq b show ?thesis by simp
    qed
  qed
  with c b m show ?thesis by blast
qed

lemma print_args_writable: "writable w \<Longrightarrow> \<exists>w'. print_args w args = Inr w'"
proof (induction args arbitrary: w)
  case Nil
  then show ?case by simp
next
  case (Cons arg rest)
  from print_writable [OF Cons.prems] obtain w1 where p: "print w (arg @ nl) = Inr w1" by blast
  from print_Inr [OF p] Cons.prems have "writable w1" by simp
  from Cons.IH [OF this] p show ?case by simp
qed

lemma missing_variable_run:
  assumes "getEnvVarOwned env envVarName = Inl err" "getcwd env = Inr cwd" "args_error env = None"
    "stdout_writable env" "stderr_writable env"
  shows "\<exists>r. main env ticks = Some r \<and> outcome r = SetupError \<and> exit_status r = 1 \<and>
           buffer (stdout (final r)) = [] \<and> written (stdout (final r)) = identity_lines env cwd"
proof -
  let ?w0 = "new_writer (stdout_writable env)"
  let ?e0 = "new_writer (stderr_writable env)"
  have w0: "writable ?w0" "writable ?e0" using assms(4,5) by (simp_all add: new_writer_def)
  from print_writable [OF w0(1)] obtain w1 where
    p1: "print ?w0 (fmt_int (own_pid env) @ nl) = Inr w1" by blast
  from print_Inr [OF p1] w0 have w1: "writable w1" by simp
  from print_writable [OF w1] obtain w2 where p2: "print w1 (cwd @ nl) = Inr w2" by blast
  from print_Inr [OF p2] w1 have w2: "writable w2" by simp
  from print_args_writable [OF w2] obtain w3 where
    p3: "print_args w2 (arg0 env # arguments env) = Inr w3" by blast
  from print_args_Inr [OF p3] w2 have w3: "writable w3" by simp
  from print_writable [OF w0(2)] obtain ew where
    pe: "print ?e0 (msg_env_error err) = Inr ew" by blast
  let ?r = "flushAndExit SetupError \<lparr>stdout = w3, stderr = ew\<rparr> 1"
  from p1 p2 p3 pe assms(1,2,3) have "announce env = Inl ?r"
    by (simp add: announce_def Let_def argsAlloc_def)
  then have m: "main env ticks = Some ?r" by (simp add: main_def)
  from print_Inr [OF p1] print_Inr [OF p2] print_args_Inr [OF p3]
  have "emitted w3 = identity_lines env cwd" by (simp add: identity_lines_def)
  with flush_catch_writable [OF w3] have "buffer (stdout (final ?r)) = []"
    "written (stdout (final ?r)) = identity_lines env cwd" by simp_all
  with m show ?thesis by simp
qed

text \<open>
  Claim C2, as amended. The program prints its process id, the working directory and one
  line for each entry of the argument vector, then reads the environment variable, and
  only when that succeeded prints the sentinel and flushes. Whenever it gets past that
  point, the descriptor has received exactly these four parts, in this order, and the
  buffer is empty, before the signal path is built, the parent is resolved and the loop
  starts; nothing is written to standard output afterwards. When the variable cannot be
  read, the run ends with \<open>SetupError\<close>, and with writable streams exactly the first
  three parts have been flushed, without the sentinel.
\<close>

theorem identity_block_flushed_before_wait:
  "(announce env = Inr (io, dir) \<longrightarrow>
      getEnvVarOwned env envVarName = Inr dir \<and>
      (\<exists>cwd. getcwd env = Inr cwd \<and>
         written (stdout io) = identity_lines env cwd @ sentinel @ nl) \<and>
      buffer (stdout io) = [] \<and>
      main env ticks =
        (case make_signal_path env io dir of
           Inl ended \<Rightarrow> Some ended
         | Inr p \<Rightarrow> (case resolve_parent env io p of
             Inl ended \<Rightarrow> Some ended
           | Inr (io', vars) \<Rightarrow> wait_loop vars io' ticks)) \<and>
      (\<forall>r. main env ticks = Some r \<longrightarrow> stdout (final r) = stdout io)) \<and>
   (getEnvVarOwned env envVarName = Inl err \<and> getcwd env = Inr cwd' \<and> args_error env = None \<and>
    stdout_writable env \<and> stderr_writable env \<longrightarrow>
      (\<exists>r. main env ticks = Some r \<and> outcome r = SetupError \<and> exit_status r = 1 \<and>
         buffer (stdout (final r)) = [] \<and> written (stdout (final r)) = identity_lines env cwd'))"
proof (rule conjI; rule impI)
  assume a: "announce env = Inr (io, dir)"
  show "getEnvVarOwned env envVarName = Inr dir \<and>
      (\<exists>cwd. getcwd env = Inr cwd \<and>
         written (stdout io) = identity_lines env cwd @ sentinel @ nl) \<and>
      buffer (stdout io) = [] \<and>
      main env ticks =
        (case make_signal_path env io dir of
           Inl ended \<Rightarrow> Some ended
         | Inr p \<Rightarrow> (case resolve_parent env io p of
             Inl ended \<Rightarrow> Some ended
           | Inr (io', vars) \<Rightarrow> wait_loop vars io' ticks)) \<and>
      (\<forall>r. main env ticks = Some r \<longrightarrow> stdout (final r) = stdout io)"
    by (rule identity_block_after_announce [OF a])
next
  assume "getEnvVarOwned env envVarName = Inl err \<and> getcwd env = Inr cwd' \<and> args_error env = None \<and>
    stdout_writable env \<and> stderr_writable env"
  then show "\<exists>r. main env ticks = Some r \<and> outcome r = SetupError \<and> exit_status r = 1 \<and>
         buffer (stdout (final r)) = [] \<and> written (stdout (final r)) = identity_lines env cwd'"
    using missing_variable_run [of env err cwd' ticks] by blast
qed

text \<open>The claim as stated fails: without the variable the run ends before the sentinel
  is printed, so the environment is consulted before the block is complete.\<close>

theorem sentinel_after_environment_counterexample:
  "main example_env_no_var [] = Some example_no_var_end \<and>
   outcome example_no_var_end = SetupError \<and>
   buffer (stdout (final example_no_var_end)) = [] \<and>
   written (stdout (final example_no_var_end)) =
     ''4242'' @ nl @ ''/work'' @ nl @ ''fakeeditor'' @ nl @ ''--edit'' @ nl @ ''msg.txt'' @ nl \<and>
   written (stdout (final example_no_var_end)) \<noteq>
     identity_lines example_env_no_var ''/work'' @ sentinel @ nl"
  using example_no_var_run
  by (simp add: example_no_var_end_def identity_lines_def example_env_no_var_def example_env_def
      fmt_int_def digits_4242 sentinel_def nl_def)

theorem identity_block_flushed_before_wait_witness:
  "announce example_env = Inr (example_streams, ''/tmp/sig42'') \<and>
   getEnvVarOwned example_env envVarName = Inr ''/tmp/sig42'' \<and>
   written (stdout example_streams) = identity_lines example_env ''/work'' @ sentinel @ nl \<and>
   buffer (stdout example_streams) = [] \<and>
   stdout (final example_end) = stdout example_streams \<and>
   getEnvVarOwned example_env_no_var envVarName = Inl ''EnvironmentVariableNotFound'' \<and>
   written (stdout (final example_no_var_end)) = identity_lines example_env_no_var ''/work''"
proof -
  note t = identity_block_flushed_before_wait
    [of example_env example_streams "''/tmp/sig42''" example_ticks]
  from t example_announce have 1: "getEnvVarOwned example_env envVarName = Inr ''/tmp/sig42''"
    by blast
  from t example_announce have 2: "buffer (stdout example_streams) = []" by blast
  from t example_announce example_run
  have 3: "stdout (final example_end) = stdout example_streams" by blast
  from t example_announce obtain cwd where c: "getcwd example_env = Inr cwd"
    "written (stdout example_streams) = identity_lines example_env cwd @ sentinel @ nl"
    by blast
  have "getcwd example_env = Inr ''/work''" by (simp add: example_env_def)
  with c have 4: "written (stdout example_streams) = identity_lines example_env ''/work'' @ sentinel @ nl"
    by simp
  have h: "getEnvVarOwned example_env_no_var envVarName = Inl ''EnvironmentVariableNotFound'' \<and>
      getcwd example_env_no_var = Inr ''/work'' \<and> args_error example_env_no_var = None \<and>
      stdout_writable example_env_no_var \<and> stderr_writable example_env_no_var"
    by (simp add: example_env_no_var_def example_env_def)
  from identity_block_flushed_before_wait
    [of example_env_no_var _ _ "[]" "''EnvironmentVariableNotFound''" "''/work''"] h
  obtain r where "main example_env_no_var [] = Some r"
    "written (stdout (final r)) = identity_lines example_env_no_var ''/work''"
    by blast
  with example_no_var_run
  have 5: "written (stdout (final example_no_var_end)) = identity_lines example_env_no_var ''/work''"
    by simp
  from h have 6: "getEnvVarOwned example_env_no_var envVarName = Inl ''EnvironmentVariableNotFound''"
    by simp
  from example_announce 1 4 2 3 6 5 show ?thesis by (intro conjI)
qed

section \<open>One iteration of the loop\<close>

lemma parent_check_alive:
  "\<not> (parent_monitoring_active vars \<and> parent_gone vars te) \<Longrightarrow> parent_check vars io te = Inr io"
  by (auto simp: parent_check_def parent_gone_def parentProcessExistsWindows_def
      WAIT_TIMEOUT_def WAIT_OBJECT_0_def split: option.splits)

lemma parentProcessExistsWindows_writable:
  "writable w \<Longrightarrow>
     \<exists>alive w'. parentProcessExistsWindows te p w = Inr (alive, w') \<and> writable w' \<and>
        alive = (OpenProcess te p \<and> WaitForSingleObject te = WAIT_TIMEOUT) \<and>
        emitted w' =
          emitted w @ (if OpenProcess te p \<and> WaitForSingleObject te \<noteq> WAIT_OBJECT_0 \<and>
                          WaitForSingleObject te \<noteq> WAIT_TIMEOUT
                       then msg_wait_failed (GetLastError te) else [])"
proof -
  assume w: "writable w"
  from print_writable [OF w] obtain w1 where
    p: "print w (msg_wait_failed (GetLastError te)) = Inr w1" by blast
  from print_Inr [OF p] w p show ?thesis
    by (simp add: parentProcessExistsWindows_def Let_def WAIT_TIMEOUT_def WAIT_OBJECT_0_def)
qed

lemma parent_check_gone:
  assumes "writable (stderr io)" "parent_monitoring_active vars" "parent_gone vars te"
  shows "\<exists>r. parent_check vars io te = Inl r \<and> outcome r = ParentGone \<and> exit_status r = 1"
proof (cases "os_of vars = Windows")
  case True
  from parentProcessExistsWindows_writable [OF assms(1), of te "win_ppid vars"]
  obtain alive w' where
    e: "parentProcessExistsWindows te (win_ppid vars) (stderr io) = Inr (alive, w')" and
    w: "writable w'" and
    a: "alive = (OpenProcess te (win_ppid vars) \<and> WaitForSingleObject te = WAIT_TIMEOUT)"
    by blast
  from a assms(3) True have na: "\<not> alive" by (simp add: parent_gone_def)
  from print_writable [OF w] obtain w'' where
    "print w' (msg_parent_gone_windows (win_ppid vars)) = Inr w''" by blast
  with e na True assms(2) show ?thesis by (simp add: parent_check_def)
next
  case False
  from print_writable [OF assms(1)] obtain w' where
    "print (stderr io) (msg_parent_gone_posix (ppid vars)) = Inr w'" by blast
  with False assms(2,3) show ?thesis by (simp add: parent_check_def parent_gone_def)
qed

lemma signal_check_present:
  "accessAbsolute te (signal_file_path vars) = None \<Longrightarrow>
     signal_check vars io te = Exit (flushAndExit Completed io 0)"
  by (simp add: signal_check_def)

lemma signal_check_not_found:
  "accessAbsolute te (signal_file_path vars) = Some ''FileNotFound'' \<Longrightarrow>
     signal_check vars io te = Sleep (50 * 1000000) io"
  by (simp add: signal_check_def POLLING_INTERVAL_MS_def ns_per_ms_def)

lemma signal_check_other_error:
  assumes "accessAbsolute te (signal_file_path vars) = Some err" "err \<noteq> ''FileNotFound''"
    "writable (stderr io)"
  shows "\<exists>ew. print (stderr io) (msg_access_error err) = Inr ew \<and>
           emitted ew = emitted (stderr io) @ msg_access_error err \<and>
           signal_check vars io te = Sleep (50 * 1000000) (io\<lparr>stderr := ew\<rparr>)"
proof -
  from print_writable [OF assms(3)] obtain ew where
    p: "print (stderr io) (msg_access_error err) = Inr ew" by blast
  from print_Inr [OF p] p assms(1,2) show ?thesis
    by (simp add: signal_check_def POLLING_INTERVAL_MS_def ns_per_ms_def)
qed

lemma tick_reaches_signal_check:
  assumes "elapsed_ms vars te < 5000" "\<not> (parent_monitoring_active vars \<and> parent_gone vars te)"
  shows "tick vars io te = signal_check vars io te"
  using assms parent_check_alive [OF assms(2), of io]
  by (simp add: tick_def TOTAL_TIMEOUT_MS_def)

text \<open>
  Claim C4. An iteration first compares the elapsed milliseconds with the 5000 ms
  timeout and ends with \<open>Timeout\<close> when they have reached it, whatever the parent and
  the file are; otherwise, with monitoring enabled only, it checks the parent and ends
  with \<open>ParentGone\<close> when it has gone, whatever the file is; otherwise it checks the
  signal file and ends with \<open>Completed\<close> when it is there; otherwise it asks for a sleep
  of 50 ms and the loop goes on with the next iteration. The diagnostic stream is
  taken to be writable.
\<close>

theorem tick_check_order:
  assumes "writable (stderr io)"
  shows "(elapsed_ms vars te \<ge> 5000 \<longrightarrow>
            (\<exists>r. tick vars io te = Exit r \<and> outcome r = Timeout \<and> exit_status r = 1)) \<and>
         (elapsed_ms vars te < 5000 \<and> parent_monitoring_active vars \<and> parent_gone vars te \<longrightarrow>
            (\<exists>r. tick vars io te = Exit r \<and> outcome r = ParentGone \<and> exit_status r = 1)) \<and>
         (elapsed_ms vars te < 5000 \<and> \<not> (parent_monitoring_active vars \<and> parent_gone vars te) \<and>
          accessAbsolute te (signal_file_path vars) = None \<longrightarrow>
            (\<exists>r. tick vars io te = Exit r \<and> outcome r = Completed \<and> exit_status r = 0)) \<and>
         (elapsed_ms vars te < 5000 \<and> \<not> (parent_monitoring_active vars \<and> parent_gone vars te) \<and>
          accessAbsolute te (signal_file_path vars) \<noteq> None \<longrightarrow>
            (\<exists>io'. tick vars io te = Sleep (50 * 1000000) io' \<and>
               wait_loop vars io (te # rest) = wait_loop vars io' rest))"
proof (intro conjI impI)
  assume "elapsed_ms vars te \<ge> 5000"
  moreover from print_writable [OF assms] obtain ew where
    "print (stderr io) msg_timeout = Inr ew" by blast
  ultimately show "\<exists>r. tick vars io te = Exit r \<and> outcome r = Timeout \<and> exit_status r = 1"
    by (simp add: tick_def TOTAL_TIMEOUT_MS_def)
next
  assume a: "elapsed_ms vars te < 5000 \<and> parent_monitoring_active vars \<and> parent_gone vars te"
  with parent_check_gone [OF assms, of vars te] obtain r where
    "parent_check vars io te = Inl r" "outcome r = ParentGone" "exit_status r = 1" by blast
  with a show "\<exists>r. tick vars io te = Exit r \<and> outcome r = ParentGone \<and> exit_status r = 1"
    by (simp add: tick_def TOTAL_TIMEOUT_MS_def)
next
  assume a: "elapsed_ms vars te < 5000 \<and> \<not> (parent_monitoring_active vars \<and> parent_gone vars te) \<and>
          accessAbsolute te (signal_file_path vars) = None"
  then have "tick vars io te = signal_check vars io te" by (simp add: tick_reaches_signal_check)
  with a show "\<exists>r. tick vars io te = Exit r \<and> outcome r = Completed \<and> exit_status r = 0"
    by (simp add: signal_check_present)
next
  assume a: "elapsed_ms vars te < 5000 \<and> \<not> (parent_monitoring_active vars \<and> parent_gone vars te) \<and>
          accessAbsolute te (signal_file_path vars) \<noteq> None"
  then have t: "tick vars io te = signal_check vars io te" by (simp add: tick_reaches_signal_check)
  from a obtain err where e: "accessAbsolute te (signal_file_path vars) = Some err" by auto
  have "\<exists>io'. signal_check vars io te = Sleep (50 * 1000000) io'"
  proof (cases "err = ''FileNotFound''")
    case True
    with e signal_check_not_found [of te vars io] show ?thesis by simp
  next
    case False
    from signal_check_other_error [OF e False assms] show ?thesis by blast
  qed
  with t show "\<exists>io'. tick vars io te = Sleep (50 * 1000000) io' \<and>
      wait_loop vars io (te # rest) = wait_loop vars io' rest"
    by auto
qed

lemma example_vars_elapsed: "elapsed_ms example_vars (example_tick ms created) = (ms * 1000000) sdiv 1000000"
  by (simp add: elapsed_ms_def example_vars_def example_tick_def ns_per_ms_def)

theorem tick_check_order_witness:
  "writable (stderr example_streams) \<and>
   (\<exists>r. tick example_vars example_streams (example_tick 5000 True) = Exit r \<and>
      outcome r = Timeout \<and> exit_status r = 1) \<and>
   (\<exists>r. tick example_vars example_streams example_tick_orphaned = Exit r \<and>
      outcome r = ParentGone \<and> exit_status r = 1) \<and>
   (\<exists>r. tick example_vars example_streams (example_tick 200 True) = Exit r \<and>
      outcome r = Completed \<and> exit_status r = 0) \<and>
   (\<exists>io'. tick example_vars example_streams (example_tick 150 False) = Sleep (50 * 1000000) io' \<and>
      wait_loop example_vars example_streams [example_tick 150 False, example_tick 200 True] =
        wait_loop example_vars io' [example_tick 200 True])"
proof -
  have w: "writable (stderr example_streams)" by (simp add: example_streams_def)
  have 1: "elapsed_ms example_vars (example_tick 5000 True) \<ge> 5000"
    by (simp add: example_vars_elapsed)
  have 2: "elapsed_ms example_vars example_tick_orphaned < 5000 \<and>
      parent_monitoring_active example_vars \<and> parent_gone example_vars example_tick_orphaned"
    by (simp add: elapsed_ms_def example_vars_def example_tick_orphaned_def example_tick_def
        ns_per_ms_def parent_gone_def)
  have 3: "elapsed_ms example_vars (example_tick 200 True) < 5000 \<and>
      \<not> (parent_monitoring_active example_vars \<and> parent_gone example_vars (example_tick 200 True)) \<and>
      accessAbsolute (example_tick 200 True) (signal_file_path example_vars) = None"
    by (simp add: example_vars_elapsed) (simp add: example_vars_def example_tick_def parent_gone_def)
  have 4: "elapsed_ms example_vars (example_tick 150 False) < 5000 \<and>
      \<not> (parent_monitoring_active example_vars \<and> parent_gone example_vars (example_tick 150 False)) \<and>
      accessAbsolute (example_tick 150 False) (signal_file_path example_vars) \<noteq> None"
    by (simp add: example_vars_elapsed) (simp add: example_vars_def example_tick_def parent_gone_def)
  from tick_check_order [OF w, of example_vars "example_tick 5000 True"] 1
  have a: "\<exists>r. tick example_vars example_streams (example_tick 5000 True) = Exit r \<and>
      outcome r = Timeout \<and> exit_status r = 1"
    by blast
  from tick_check_order [OF w, of example_vars example_tick_orphaned] 2
  have b: "\<exists>r. tick example_vars example_streams example_tick_orphaned = Exit r \<and>
      outcome r = ParentGone \<and> exit_status r = 1"
    by blast
  from tick_check_order [OF w, of example_vars "example_tick 200 True"] 3
  have c: "\<exists>r. tick example_vars example_streams (example_tick 200 True) = Exit r \<and>
      outcome r = Completed \<and> exit_status r = 0"
    by blast
  from tick_check_order [OF w, of example_vars "example_tick 150 False" "[example_tick 200 True]"] 4
  have d: "\<exists>io'. tick example_vars example_streams (example_tick 150 False) = Sleep (50 * 1000000) io' \<and>
      wait_loop example_vars example_streams [example_tick 150 False, example_tick 200 True] =
        wait_loop example_vars io' [example_tick 200 True]"
    by blast
  from w a b c d show ?thesis by (intro conjI)
qed

section \<open>The signal file\<close>

text \<open>
  Claim C5. In an iteration that reaches the signal check, the path checked is the one
  built from the signal directory and \<^verbatim>\<open>0\<close>. When it is accessible the loop ends with
  \<open>Completed\<close> and exit status 0; when the error is \<^verbatim>\<open>FileNotFound\<close> nothing is
  printed and the loop goes on after a sleep of 50 ms; any other error is printed to
  the diagnostic stream, and the loop goes on in the same way. The diagnostic stream
  is taken to be writable where something is printed.
\<close>

theorem signal_file_check:
  assumes "elapsed_ms vars te < 5000" "\<not> (parent_monitoring_active vars \<and> parent_gone vars te)"
  shows "(accessAbsolute te (signal_file_path vars) = None \<longrightarrow>
            (\<exists>r. wait_loop vars io (te # rest) = Some r \<and> r = flushAndExit Completed io 0 \<and>
               outcome r = Completed \<and> exit_status r = 0)) \<and>
         (accessAbsolute te (signal_file_path vars) = Some ''FileNotFound'' \<longrightarrow>
            tick vars io te = Sleep (50 * 1000000) io \<and>
            wait_loop vars io (te # rest) = wait_loop vars io rest) \<and>
         (\<forall>err. accessAbsolute te (signal_file_path vars) = Some err \<and> err \<noteq> ''FileNotFound'' \<and>
            writable (stderr io) \<longrightarrow>
            (\<exists>ew. emitted ew = emitted (stderr io) @ msg_access_error err \<and>
               tick vars io te = Sleep (50 * 1000000) (io\<lparr>stderr := ew\<rparr>) \<and>
               wait_loop vars io (te # rest) = wait_loop vars (io\<lparr>stderr := ew\<rparr>) rest)) \<and>
         (\<forall>env. startup env = Inr (io, vars) \<longrightarrow>
            (\<exists>dir. getEnvVarOwned env envVarName = Inr dir \<and>
               path_join env [dir, ''0''] = Inr (signal_file_path vars)))"
proof (intro conjI impI allI)
  assume "accessAbsolute te (signal_file_path vars) = None"
  then show "\<exists>r. wait_loop vars io (te # rest) = Some r \<and> r = flushAndExit Completed io 0 \<and>
      outcome r = Completed \<and> exit_status r = 0"
    by (simp add: tick_reaches_signal_check [OF assms] signal_check_present)
next
  assume a: "accessAbsolute te (signal_file_path vars) = Some ''FileNotFound''"
  then show "tick vars io te = Sleep (50 * 1000000) io"
    by (simp add: tick_reaches_signal_check [OF assms] signal_check_not_found)
  from a show "wait_loop vars io (te # rest) = wait_loop vars io rest"
    by (simp add: tick_reaches_signal_check [OF assms] signal_check_not_found)
next
  fix err
  assume a: "accessAbsolute te (signal_file_path vars) = Some err \<and> err \<noteq> ''FileNotFound'' \<and>
            writable (stderr io)"
  then have e: "accessAbsolute te (signal_file_path vars) = Some err" and n: "err \<noteq> ''FileNotFound''"
    and w: "writable (stderr io)" by simp_all
  from signal_check_other_error [OF e n w] obtain ew where
    ew: "emitted ew = emitted (stderr io) @ msg_access_error err"
      "signal_check vars io te = Sleep (50 * 1000000) (io\<lparr>stderr := ew\<rparr>)"
    by blast
  then have "tick vars io te = Sleep (50 * 1000000) (io\<lparr>stderr := ew\<rparr>)"
    "wait_loop vars io (te # rest) = wait_loop vars (io\<lparr>stderr := ew\<rparr>) rest"
    by (simp_all add: tick_reaches_signal_check [OF assms])
  with ew(1) show "\<exists>ew. emitted ew = emitted (stderr io) @ msg_access_error err \<and>
               tick vars io te = Sleep (50 * 1000000) (io\<lparr>stderr := ew\<rparr>) \<and>
               wait_loop vars io (te # rest) = wait_loop vars (io\<lparr>stderr := ew\<rparr>) rest"
    by blast
next
  fix env
  assume "startup env = Inr (io, vars)"
  then show "\<exists>dir. getEnvVarOwned env envVarName = Inr dir \<and>
               path_join env [dir, ''0''] = Inr (signal_file_path vars)"
    by (rule startup_Inr_path)
qed

lemma example_startup_vars: "startup example_env = Inr (example_streams, example_vars)"
  by (simp add: example_startup example_vars_def)

lemma example_quiet:
  "elapsed_ms example_vars (example_tick 200 created) < 5000"
  "\<not> (parent_monitoring_active example_vars \<and> parent_gone example_vars (example_tick 200 created))"
  "elapsed_ms example_vars (example_tick 150 created) < 5000"
  "\<not> (parent_monitoring_active example_vars \<and> parent_gone example_vars (example_tick 150 created))"
  by (simp_all add: example_vars_elapsed) (simp_all add: example_vars_def example_tick_def parent_gone_def)

theorem signal_file_check_witness:
  "elapsed_ms example_vars (example_tick 200 True) < 5000 \<and>
   \<not> (parent_monitoring_active example_vars \<and> parent_gone example_vars (example_tick 200 True)) \<and>
   wait_loop example_vars example_streams [example_tick 200 True] =
     Some (flushAndExit Completed example_streams 0) \<and>
   wait_loop example_vars example_streams [example_tick 150 False, example_tick 200 True] =
     wait_loop example_vars example_streams [example_tick 200 True] \<and>
   (\<exists>ew. emitted ew = msg_access_error ''AccessDenied'' \<and>
      wait_loop example_vars example_streams [example_tick_access_denied, example_tick 200 True] =
        wait_loop example_vars (example_streams\<lparr>stderr := ew\<rparr>) [example_tick 200 True]) \<and>
   (\<exists>dir. getEnvVarOwned example_env envVarName = Inr dir \<and>
      path_join example_env [dir, ''0''] = Inr (signal_file_path example_vars))"
proof -
  have a1: "accessAbsolute (example_tick 200 True) (signal_file_path example_vars) = None"
    by (simp add: example_vars_def example_tick_def)
  from signal_file_check [OF example_quiet(1,2), of True example_streams "[]"] a1
  have 1: "wait_loop example_vars example_streams [example_tick 200 True] =
     Some (flushAndExit Completed example_streams 0)"
    by simp
  have a2: "accessAbsolute (example_tick 150 False) (signal_file_path example_vars) = Some ''FileNotFound''"
    by (simp add: example_vars_def example_tick_def)
  from signal_file_check [OF example_quiet(3,4), of False example_streams "[example_tick 200 True]"] a2
  have 2: "wait_loop example_vars example_streams [example_tick 150 False, example_tick 200 True] =
     wait_loop example_vars example_streams [example_tick 200 True]"
    by simp
  have q: "elapsed_ms example_vars example_tick_access_denied < 5000"
    "\<not> (parent_monitoring_active example_vars \<and> parent_gone example_vars example_tick_access_denied)"
    by (simp_all add: elapsed_ms_def example_vars_def example_tick_access_denied_def
        example_tick_def ns_per_ms_def parent_gone_def)
  have a3: "accessAbsolute example_tick_access_denied (signal_file_path example_vars) = Some ''AccessDenied'' \<and>
      ''AccessDenied'' \<noteq> ''FileNotFound'' \<and> writable (stderr example_streams)"
    by (simp add: example_tick_access_denied_def example_streams_def)
  have e: "emitted (stderr example_streams) = []"
    by (simp add: emitted_def example_streams_def)
  from signal_file_check [OF q, of example_streams "[example_tick 200 True]"] a3 e
  have 3: "\<exists>ew. emitted ew = msg_access_error ''AccessDenied'' \<and>
      wait_loop example_vars example_streams [example_tick_access_denied, example_tick 200 True] =
        wait_loop example_vars (example_streams\<lparr>stderr := ew\<rparr>) [example_tick 200 True]"
    by (metis append_Nil)
  from signal_file_check [OF example_quiet(1,2), of True example_streams "[]"] example_startup_vars
  have 4: "\<exists>dir. getEnvVarOwned example_env envVarName = Inr dir \<and>
      path_join example_env [dir, ''0''] = Inr (signal_file_path example_vars)"
    by blast
  from example_quiet(1,2) [of True] 1 2 3 4 show ?thesis by (intro conjI)
qed

section \<open>The parent probe\<close>

lemma startup_Inr_posix:
  assumes "startup env = Inr (io, vars)" "os_of vars \<noteq> Windows"
  shows "ppid vars = getppid env \<and> getppid env \<noteq> 1 \<and> parent_monitoring_active vars"
proof -
  from assms(1) obtain io0 p where r: "resolve_parent env io0 p = Inr (io, vars)"
    by (auto simp: startup_def split: sum.splits prod.splits)
  from resolve_parent_Inr [OF r] assms(2) have "os env \<noteq> Windows" by simp
  with r show ?thesis
    by (auto simp: resolve_parent_def Let_def split: if_splits sum.splits)
qed

text \<open>
  Claim C6, as amended. On the systems other than Windows the parent id is read once at
  startup, and each iteration that reaches the parent check probes that id with signal
  0. Exactly the error \<^verbatim>\<open>NoSuchProcess\<close> ends the run with \<open>ParentGone\<close> and exit
  status 1, after the message has been printed. Any other error of the probe is
  ignored: nothing is printed, the streams are unchanged, and the iteration goes on to
  the signal check, as it does when the probe succeeds.
\<close>

theorem posix_parent_probe:
  assumes "os_of vars \<noteq> Windows" "parent_monitoring_active vars"
  shows "(kill te (ppid vars) 0 = None \<longrightarrow> parent_check vars io te = Inr io) \<and>
         (\<forall>err. kill te (ppid vars) 0 = Some err \<and> err \<noteq> ''NoSuchProcess'' \<longrightarrow>
            parent_check vars io te = Inr io) \<and>
         (kill te (ppid vars) 0 = Some ''NoSuchProcess'' \<and> writable (stderr io) \<longrightarrow>
            (\<exists>r. parent_check vars io te = Inl r \<and> outcome r = ParentGone \<and> exit_status r = 1 \<and>
               buffer (stderr (final r)) = [] \<and>
               written (stderr (final r)) = emitted (stderr io) @ msg_parent_gone_posix (ppid vars))) \<and>
         (\<forall>r. parent_check vars io te = Inl r \<longrightarrow> kill te (ppid vars) 0 = Some ''NoSuchProcess'') \<and>
         (\<forall>env io0. startup env = Inr (io0, vars) \<longrightarrow> ppid vars = getppid env)"
proof (intro conjI impI allI)
  assume "kill te (ppid vars) 0 = None"
  with assms show "parent_check vars io te = Inr io" by (simp add: parent_check_def)
next
  fix err
  assume "kill te (ppid vars) 0 = Some err \<and> err \<noteq> ''NoSuchProcess''"
  with assms show "parent_check vars io te = Inr io" by (simp add: parent_check_def)
next
  assume a: "kill te (ppid vars) 0 = Some ''NoSuchProcess'' \<and> writable (stderr io)"
  then have w: "writable (stderr io)" by simp
  from print_writable [OF w] obtain ew where
    p: "print (stderr io) (msg_parent_gone_posix (ppid vars)) = Inr ew" by blast
  from print_Inr [OF p] w have "writable ew" "emitted ew = emitted (stderr io) @ msg_parent_gone_posix (ppid vars)"
    by simp_all
  with flush_catch_writable [of ew] p a assms
  show "\<exists>r. parent_check vars io te = Inl r \<and> outcome r = ParentGone \<and> exit_status r = 1 \<and>
               buffer (stderr (final r)) = [] \<and>
               written (stderr (final r)) = emitted (stderr io) @ msg_parent_gone_posix (ppid vars)"
    by (simp add: parent_check_def)
next
  fix r
  assume "parent_check vars io te = Inl r"
  with assms show "kill te (ppid vars) 0 = Some ''NoSuchProcess''"
    by (auto simp: parent_check_def split: option.splits if_splits)
next
  fix env io0
  assume "startup env = Inr (io0, vars)"
  from startup_Inr_posix [OF this assms(1)] show "ppid vars = getppid env" by simp
qed

text \<open>The claim as stated fails: in this run each probe of the parent is refused with
  \<^verbatim>\<open>PermissionDenied\<close>, and the diagnostic stream stays empty to the end.\<close>

lemma example_probe_denied_run:
  "main example_env [example_tick_probe_denied 0 False, example_tick_probe_denied 50 True] =
     Some example_end"
  by (simp add: main_startup example_startup)
     (simp add: tick_def elapsed_ms_def example_tick_probe_denied_def example_tick_def
       parent_check_def signal_check_def ns_per_ms_def TOTAL_TIMEOUT_MS_def flushAndExit_def
       flush_catch_def flush_def example_end_def example_streams_def)

theorem probe_error_not_logged_counterexample:
  "os example_env = Linux \<and>
   kill (example_tick_probe_denied 0 False) (getppid example_env) 0 = Some ''PermissionDenied'' \<and>
   kill (example_tick_probe_denied 50 True) (getppid example_env) 0 = Some ''PermissionDenied'' \<and>
   main example_env [example_tick_probe_denied 0 False, example_tick_probe_denied 50 True] =
     Some example_end \<and>
   outcome example_end = Completed \<and>
   emitted (stderr (final example_end)) = []"
  using example_probe_denied_run
  by (simp add: example_env_def example_tick_probe_denied_def example_end_def
      example_streams_def emitted_def)

theorem posix_parent_probe_witness:
  "os_of example_vars \<noteq> Windows \<and> parent_monitoring_active example_vars \<and>
   parent_check example_vars example_streams (example_tick 0 False) = Inr example_streams \<and>
   parent_check example_vars example_streams (example_tick_probe_denied 0 False) = Inr example_streams \<and>
   (\<exists>r. parent_check example_vars example_streams example_tick_orphaned = Inl r \<and>
      outcome r = ParentGone \<and> exit_status r = 1 \<and>
      written (stderr (final r)) = msg_parent_gone_posix 100) \<and>
   ppid example_vars = getppid example_env"
proof -
  have h: "os_of example_vars \<noteq> Windows" "parent_monitoring_active example_vars"
    by (simp_all add: example_vars_def)
  have k1: "kill (example_tick 0 False) (ppid example_vars) 0 = None"
    by (simp add: example_tick_def)
  have k2: "kill (example_tick_probe_denied 0 False) (ppid example_vars) 0 = Some ''PermissionDenied'' \<and>
      ''PermissionDenied'' \<noteq> ''NoSuchProcess''"
    by (simp add: example_tick_probe_denied_def)
  have k3: "kill example_tick_orphaned (ppid example_vars) 0 = Some ''NoSuchProcess'' \<and>
      writable (stderr example_streams)"
    by (simp add: example_tick_orphaned_def example_streams_def)
  have e: "emitted (stderr example_streams) = []" "ppid example_vars = 100"
    by (simp_all add: emitted_def example_streams_def example_vars_def)
  from posix_parent_probe [OF h, of "example_tick 0 False" example_streams] k1
  have 1: "parent_check example_vars example_streams (example_tick 0 False) = Inr example_streams"
    by blast
  from posix_parent_probe [OF h, of "example_tick_probe_denied 0 False" example_streams] k2
  have 2: "parent_check example_vars example_streams (example_tick_probe_denied 0 False) = Inr example_streams"
    by blast
  from posix_parent_probe [OF h, of example_tick_orphaned example_streams] k3
  obtain r where "parent_check example_vars example_streams example_tick_orphaned = Inl r"
    "outcome r = ParentGone" "exit_status r = 1"
    "written (stderr (final r)) = emitted (stderr example_streams) @ msg_parent_gone_posix (ppid example_vars)"
    by blast
  with e have 3: "\<exists>r. parent_check example_vars example_streams example_tick_orphaned = Inl r \<and>
      outcome r = ParentGone \<and> exit_status r = 1 \<and>
      written (stderr (final r)) = msg_parent_gone_posix 100"
    by simp
  from posix_parent_probe [OF h, of "example_tick 0 False" example_streams] example_startup_vars
  have 4: "ppid example_vars = getppid example_env" by blast
  from h 1 2 3 4 show ?thesis by (intro conjI)
qed

text \<open>
  Claim C10. On Windows, when the handle of the parent can be opened and the wait on it
  returns neither \<^verbatim>\<open>WAIT_OBJECT_0\<close> nor \<^verbatim>\<open>WAIT_TIMEOUT\<close> (so \<^verbatim>\<open>WAIT_FAILED\<close>), the
  parent check ends the run with exit status 1; with a writable diagnostic stream the
  failure and the parent-gone message are both printed and the outcome is
  \<open>ParentGone\<close>. On the other systems a probe error other than \<^verbatim>\<open>NoSuchProcess\<close>
  lets the iteration go on.
\<close>

theorem windows_wait_failed_fatal:
  assumes "os_of vars = Windows" "parent_monitoring_active vars" "OpenProcess te (win_ppid vars)"
    "WaitForSingleObject te \<noteq> WAIT_OBJECT_0" "WaitForSingleObject te \<noteq> WAIT_TIMEOUT"
  shows "(\<exists>r. parent_check vars io te = Inl r \<and> exit_status r = 1 \<and>
            (elapsed_ms vars te < 5000 \<longrightarrow> wait_loop vars io (te # rest) = Some r) \<and>
            (writable (stderr io) \<longrightarrow>
               outcome r = ParentGone \<and> buffer (stderr (final r)) = [] \<and>
               written (stderr (final r)) =
                 emitted (stderr io) @ msg_wait_failed (GetLastError te)
                   @ msg_parent_gone_windows (win_ppid vars))) \<and>
         (\<forall>vars' te' err. os_of vars' \<noteq> Windows \<and> kill te' (ppid vars') 0 = Some err \<and>
            err \<noteq> ''NoSuchProcess'' \<longrightarrow> parent_check vars' io te' = Inr io)"
proof (intro conjI allI impI)
  have ended: "\<exists>r. parent_check vars io te = Inl r \<and> exit_status r = 1 \<and>
      (writable (stderr io) \<longrightarrow>
               outcome r = ParentGone \<and> buffer (stderr (final r)) = [] \<and>
               written (stderr (final r)) =
                 emitted (stderr io) @ msg_wait_failed (GetLastError te)
                   @ msg_parent_gone_windows (win_ppid vars))"
  proof (cases "print (stderr io) (msg_wait_failed (GetLastError te))")
    case (Inl e)
    with assms print_Inl [OF Inl] show ?thesis
      by (simp add: parent_check_def parentProcessExistsWindows_def)
  next
    case (Inr ew)
    note p1 = print_Inr [OF Inr]
    show ?thesis
    proof (cases "print ew (msg_parent_gone_windows (win_ppid vars))")
      case (Inl e)
      with assms Inr print_Inl [OF Inl] p1 show ?thesis
        by (simp add: parent_check_def parentProcessExistsWindows_def)
    next
      case ew': (Inr ew')
      note p2 = print_Inr [OF ew']
      from assms Inr ew' have pc: "parent_check vars io te =
          Inl (flushAndExit ParentGone (io\<lparr>stderr := ew'\<rparr>) 1)"
        by (simp add: parent_check_def parentProcessExistsWindows_def)
      from p1 p2 flush_catch_writable [of ew'] have "writable (stderr io) \<longrightarrow>
          buffer (flush_catch ew') = [] \<and>
          written (flush_catch ew') = emitted (stderr io) @ msg_wait_failed (GetLastError te)
                   @ msg_parent_gone_windows (win_ppid vars)"
        by simp
      with pc show ?thesis by simp
    qed
  qed
  then obtain r where r: "parent_check vars io te = Inl r" "exit_status r = 1"
      "writable (stderr io) \<longrightarrow>
               outcome r = ParentGone \<and> buffer (stderr (final r)) = [] \<and>
               written (stderr (final r)) =
                 emitted (stderr io) @ msg_wait_failed (GetLastError te)
                   @ msg_parent_gone_windows (win_ppid vars)"
    by blast
  have "elapsed_ms vars te < 5000 \<longrightarrow> wait_loop vars io (te # rest) = Some r"
    using r(1) by (simp add: tick_def TOTAL_TIMEOUT_MS_def)
  with r show "\<exists>r. parent_check vars io te = Inl r \<and> exit_status r = 1 \<and>
            (elapsed_ms vars te < 5000 \<longrightarrow> wait_loop vars io (te # rest) = Some r) \<and>
            (writable (stderr io) \<longrightarrow>
               outcome r = ParentGone \<and> buffer (stderr (final r)) = [] \<and>
               written (stderr (final r)) =
                 emitted (stderr io) @ msg_wait_failed (GetLastError te)
                   @ msg_parent_gone_windows (win_ppid vars))"
    by blast
next
  fix vars' :: loop_vars and te' :: tick_env and err
  assume "os_of vars' \<noteq> Windows \<and> kill te' (ppid vars') 0 = Some err \<and> err \<noteq> ''NoSuchProcess''"
  then show "parent_check vars' io te' = Inr io"
    by (simp add: parent_check_def)
qed

theorem windows_wait_failed_fatal_witness:
  "os_of example_vars_windows = Windows \<and> parent_monitoring_active example_vars_windows \<and>
   OpenProcess example_tick_wait_failed (win_ppid example_vars_windows) \<and>
   WaitForSingleObject example_tick_wait_failed = WAIT_FAILED \<and>
   (\<exists>r. wait_loop example_vars_windows example_streams [example_tick_wait_failed] = Some r \<and>
      exit_status r = 1 \<and> outcome r = ParentGone \<and>
      written (stderr (final r)) = msg_wait_failed 6 @ msg_parent_gone_windows 77) \<and>
   parent_check example_vars example_streams (example_tick_probe_denied 0 False) = Inr example_streams"
proof -
  have h: "os_of example_vars_windows = Windows" "parent_monitoring_active example_vars_windows"
    "OpenProcess example_tick_wait_failed (win_ppid example_vars_windows)"
    "WaitForSingleObject example_tick_wait_failed \<noteq> WAIT_OBJECT_0"
    "WaitForSingleObject example_tick_wait_failed \<noteq> WAIT_TIMEOUT"
    by (simp_all add: example_vars_windows_def example_tick_wait_failed_def example_tick_def
        WAIT_FAILED_def WAIT_OBJECT_0_def WAIT_TIMEOUT_def)
  have f: "WaitForSingleObject example_tick_wait_failed = WAIT_FAILED"
    by (simp add: example_tick_wait_failed_def)
  have e: "elapsed_ms example_vars_windows example_tick_wait_failed < 5000"
    "writable (stderr example_streams)" "emitted (stderr example_streams) = []"
    "GetLastError example_tick_wait_failed = 6" "win_ppid example_vars_windows = 77"
    by (simp_all add: elapsed_ms_def example_vars_windows_def example_tick_wait_failed_def
        example_tick_def ns_per_ms_def example_streams_def emitted_def)
  have k: "os_of example_vars \<noteq> Windows \<and>
      kill (example_tick_probe_denied 0 False) (ppid example_vars) 0 = Some ''PermissionDenied'' \<and>
      ''PermissionDenied'' \<noteq> ''NoSuchProcess''"
    by (simp add: example_vars_def example_tick_probe_denied_def)
  note t = windows_wait_failed_fatal [OF h, of example_streams "[]"]
  from t e obtain r where
    "wait_loop example_vars_windows example_streams [example_tick_wait_failed] = Some r"
    "exit_status r = 1" "outcome r = ParentGone"
    "written (stderr (final r)) = emitted (stderr example_streams) @
       msg_wait_failed (GetLastError example_tick_wait_failed) @
       msg_parent_gone_windows (win_ppid example_vars_windows)"
    by blast
  with e have 1: "\<exists>r. wait_loop example_vars_windows example_streams [example_tick_wait_failed] = Some r \<and>
      exit_status r = 1 \<and> outcome r = ParentGone \<and>
      written (stderr (final r)) = msg_wait_failed 6 @ msg_parent_gone_windows 77"
    by simp
  from t k have 2: "parent_check example_vars example_streams (example_tick_probe_denied 0 False) = Inr example_streams"
    by blast
  from h(1-3) f 1 2 show ?thesis by (intro conjI)
qed

section \<open>Resolving the parent\<close>

lemma emitted_flush_catch [simp]: "emitted (flush_catch w) = emitted w"
  by (simp add: flush_catch_def flush_def emitted_def)

lemma make_signal_path_ok:
  "path_join env [dir, ''0''] = Inr p \<Longrightarrow> make_signal_path env io dir = Inr p"
  by (simp add: make_signal_path_def)

text \<open>
  Claim C7. On the systems other than Windows, when the program has got as far as
  reading its parent id and that id is 1, it prints the message about init, flushes and
  exits with status 1 and outcome \<open>ParentGone\<close>; the loop is not entered, so the run
  ends in the same way whatever the later answers of the system are, and also when
  there are none.
\<close>

theorem reparented_exits_before_loop:
  assumes "os env \<noteq> Windows" "getppid env = 1" "announce env = Inr (io, dir)"
    "path_join env [dir, ''0''] = Inr p"
  shows "\<exists>r. main env ticks = Some r \<and> main env [] = Some r \<and> outcome r = ParentGone \<and>
           exit_status r = 1 \<and> emitted (stderr (final r)) = msg_reparented"
proof -
  from announce_Inr [OF assms(3)] have e: "stderr io = new_writer (stderr_writable env)"
    by blast
  have "length msg_reparented \<le> BUFFER_SIZE"
    by (simp add: msg_reparented_def nl_def BUFFER_SIZE_def)
  with e have p: "print (stderr io) msg_reparented = Inr ((stderr io)\<lparr>buffer := msg_reparented\<rparr>)"
    by (simp add: print_def new_writer_def)
  let ?r = "flushAndExit ParentGone (io\<lparr>stderr := (stderr io)\<lparr>buffer := msg_reparented\<rparr>\<rparr>) 1"
  from assms(1,2) p have r: "resolve_parent env io p = Inl ?r"
    by (simp add: resolve_parent_def)
  have m: "main env ts = Some ?r" for ts
    by (simp add: main_def assms(3) make_signal_path_ok [OF assms(4)] r)
  have "emitted (stderr (final ?r)) = emitted ((stderr io)\<lparr>buffer := msg_reparented\<rparr>)"
    by simp
  with e have "emitted (stderr (final ?r)) = msg_reparented"
    by (simp add: emitted_def new_writer_def)
  with m [of ticks] m [of "[]"] show ?thesis by simp
qed

lemma example_reparented_announce:
  "announce example_env_reparented = Inr (example_streams, ''/tmp/sig42'')"
  by (simp add: announce_def example_env_reparented_def example_env_def Let_def print_def
      new_writer_def fmt_int_def digits_4242 nl_def argsAlloc_def envVarName_def sentinel_def
      flush_def BUFFER_SIZE_def example_streams_def example_stdout_def)

theorem reparented_exits_before_loop_witness:
  "os example_env_reparented \<noteq> Windows \<and> getppid example_env_reparented = 1 \<and>
   announce example_env_reparented = Inr (example_streams, ''/tmp/sig42'') \<and>
   path_join example_env_reparented [''/tmp/sig42'', ''0''] = Inr ''/tmp/sig42/0'' \<and>
   (\<exists>r. main example_env_reparented example_ticks = Some r \<and>
      main example_env_reparented [] = Some r \<and> outcome r = ParentGone \<and>
      exit_status r = 1 \<and> emitted (stderr (final r)) = msg_reparented)"
proof -
  have h: "os example_env_reparented \<noteq> Windows" "getppid example_env_reparented = 1"
    "path_join example_env_reparented [''/tmp/sig42'', ''0''] = Inr ''/tmp/sig42/0''"
    by (simp_all add: example_env_reparented_def example_env_def)
  from reparented_exits_before_loop [OF h(1,2) example_reparented_announce h(3), of example_ticks]
    h example_reparented_announce
  show ?thesis by (intro conjI)
qed

section \<open>The scenario of the specification\<close>

lemma startup_Inr_stdout:
  assumes "startup env = Inr (io, vars)"
  shows "\<exists>cwd. getcwd env = Inr cwd \<and> buffer (stdout io) = [] \<and>
           written (stdout io) = identity_lines env cwd @ sentinel @ nl"
proof -
  from assms obtain io0 dir p where a: "announce env = Inr (io0, dir)"
    and r: "resolve_parent env io0 p = Inr (io, vars)"
    by (auto simp: startup_def split: sum.splits prod.splits)
  from announce_Inr [OF a] obtain cwd where c: "getcwd env = Inr cwd" "buffer (stdout io0) = []"
    "written (stdout io0) = identity_lines env cwd @ sentinel @ nl" by blast
  from resolve_parent_stdout [OF c(2), of env p] r have "stdout io = stdout io0" by simp
  with c show ?thesis by simp
qed

lemma wait_loop_quiet:
  assumes "\<forall>te \<in> set waiting. elapsed_ms vars te < 5000 \<and>
      \<not> (parent_monitoring_active vars \<and> parent_gone vars te) \<and>
      accessAbsolute te (signal_file_path vars) = Some ''FileNotFound''"
  shows "wait_loop vars io (waiting @ ticks) = wait_loop vars io ticks"
  using assms
proof (induction waiting)
  case Nil
  then show ?case by simp
next
  case (Cons te waiting)
  then have "tick vars io te = Sleep (50 * 1000000) io"
    by (simp add: tick_reaches_signal_check signal_check_not_found)
  with Cons show ?case by simp
qed

text \<open>
  Claim C9, as amended. When the program is launched with the arguments
  \<^verbatim>\<open>--edit msg.txt\<close> and reaches the loop, and after some iterations that find nothing
  an iteration within the timeout, with the parent not found gone, finds the signal
  file, then the run ends with \<open>Completed\<close> and exit status 0, and standard output
  holds the process id line, the working directory line, the line of the program name,
  the two argument lines and the sentinel line: three lines between the working
  directory and the sentinel, not two.
\<close>

theorem edit_scenario:
  assumes "startup env = Inr (io, vars)" "getcwd env = Inr cwd"
    "arguments env = [''--edit'', ''msg.txt'']"
    "\<forall>te \<in> set waiting. elapsed_ms vars te < 5000 \<and>
      \<not> (parent_monitoring_active vars \<and> parent_gone vars te) \<and>
      accessAbsolute te (signal_file_path vars) = Some ''FileNotFound''"
    "elapsed_ms vars te < 5000" "\<not> (parent_monitoring_active vars \<and> parent_gone vars te)"
    "accessAbsolute te (signal_file_path vars) = None"
  shows "\<exists>r. main env (waiting @ te # rest) = Some r \<and> outcome r = Completed \<and>
           exit_status r = 0 \<and> buffer (stdout (final r)) = [] \<and>
           written (stdout (final r)) =
             fmt_int (own_pid env) @ nl @ cwd @ nl @ arg0 env @ nl @ ''--edit'' @ nl
               @ ''msg.txt'' @ nl @ sentinel @ nl"
proof -
  let ?r = "flushAndExit Completed io 0"
  have "tick vars io te = Exit ?r"
    using assms(5,6,7) by (simp add: tick_reaches_signal_check signal_check_present)
  then have "wait_loop vars io (te # rest) = Some ?r" by simp
  with wait_loop_quiet [OF assms(4), of io "te # rest"] assms(1)
  have m: "main env (waiting @ te # rest) = Some ?r" by (simp add: main_startup)
  from startup_Inr_stdout [OF assms(1)] assms(2) have s: "buffer (stdout io) = []"
    "written (stdout io) = identity_lines env cwd @ sentinel @ nl" by auto
  then have "stdout (final ?r) = stdout io" by (simp add: flush_catch_empty)
  with s assms(3) have "buffer (stdout (final ?r)) = []"
    "written (stdout (final ?r)) =
       fmt_int (own_pid env) @ nl @ cwd @ nl @ arg0 env @ nl @ ''--edit'' @ nl
         @ ''msg.txt'' @ nl @ sentinel @ nl"
    by (simp_all add: identity_lines_def)
  with m show ?thesis by simp
qed

text \<open>The claim as stated fails: in the scenario the block has the line of the program
  name between the working directory line and the two argument lines.\<close>

theorem edit_scenario_counterexample:
  "arguments example_env = [''--edit'', ''msg.txt''] \<and>
   main example_env example_ticks = Some example_end \<and>
   exit_status example_end = 0 \<and>
   written (stdout (final example_end)) =
     ''4242'' @ nl @ ''/work'' @ nl @ ''fakeeditor'' @ nl @ ''--edit'' @ nl @ ''msg.txt'' @ nl
       @ ''FAKEEDITOR_OUTPUT_END'' @ nl \<and>
   written (stdout (final example_end)) \<noteq>
     ''4242'' @ nl @ ''/work'' @ nl @ ''--edit'' @ nl @ ''msg.txt'' @ nl
       @ ''FAKEEDITOR_OUTPUT_END'' @ nl"
  using example_run
  by (simp add: example_env_def example_end_def example_streams_def example_stdout_def nl_def)

theorem edit_scenario_witness:
  "startup example_env = Inr (example_streams, example_vars) \<and>
   getcwd example_env = Inr ''/work'' \<and> arguments example_env = [''--edit'', ''msg.txt''] \<and>
   accessAbsolute (example_tick 200 True) (signal_file_path example_vars) = None \<and>
   (\<exists>r. main example_env example_ticks = Some r \<and> outcome r = Completed \<and>
      exit_status r = 0 \<and> buffer (stdout (final r)) = [] \<and>
      written (stdout (final r)) =
        fmt_int 4242 @ nl @ ''/work'' @ nl @ ''fakeeditor'' @ nl @ ''--edit'' @ nl
          @ ''msg.txt'' @ nl @ sentinel @ nl)"
proof -
  have h: "getcwd example_env = Inr ''/work''" "arguments example_env = [''--edit'', ''msg.txt'']"
    "own_pid example_env = 4242" "arg0 example_env = ''fakeeditor''"
    by (simp_all add: example_env_def)
  have q: "\<forall>te \<in> set [example_tick 0 False, example_tick 50 False, example_tick 100 False,
        example_tick 150 False].
      elapsed_ms example_vars te < 5000 \<and>
      \<not> (parent_monitoring_active example_vars \<and> parent_gone example_vars te) \<and>
      accessAbsolute te (signal_file_path example_vars) = Some ''FileNotFound''"
    by (simp add: example_vars_elapsed) (simp add: example_vars_def example_tick_def parent_gone_def)
  have a: "accessAbsolute (example_tick 200 True) (signal_file_path example_vars) = None"
    by (simp add: example_vars_def example_tick_def)
  from edit_scenario [OF example_startup_vars h(1,2) q example_quiet(1,2) a, of "[]"] h(3,4)
  have "\<exists>r. main example_env example_ticks = Some r \<and> outcome r = Completed \<and>
      exit_status r = 0 \<and> buffer (stdout (final r)) = [] \<and>
      written (stdout (final r)) =
        fmt_int 4242 @ nl @ ''/work'' @ nl @ ''fakeeditor'' @ nl @ ''--edit'' @ nl
          @ ''msg.txt'' @ nl @ sentinel @ nl"
    by (simp add: example_ticks_def)
  with example_startup_vars h(1,2) a show ?thesis by (intro conjI)
qed

section \<open>Windows: the parent cannot be determined\<close>

lemma print_then_fail_writable:
  "writable w \<Longrightarrow>
     \<exists>w'. print_then_fail w s e = (Inl e, w') \<and> writable w' \<and> emitted w' = emitted w @ s"
proof -
  assume w: "writable w"
  from print_writable [OF w] obtain w' where p: "print w s = Inr w'" by blast
  from print_Inr [OF p] w p show ?thesis by (simp add: print_then_fail_def)
qed

lemma print_then_fail_Inl:
  "print_then_fail w s e = (res, w') \<Longrightarrow> (\<exists>e'. res = Inl e') \<and> writable w' = writable w"
  by (auto simp: print_then_fail_def split: sum.splits dest: print_Inr)

lemma snapshot_walk_writable:
  "snapshot_walk pid err es w = (res, w') \<Longrightarrow> writable w' = writable w"
proof (induction es)
  case Nil
  then show ?case by (auto split: if_splits dest: print_then_fail_Inl)
next
  case (Cons pe es)
  then show ?case by (auto split: if_splits dest: print_then_fail_Inl)
qed

lemma getParentPidWindows_writable:
  "getParentPidWindows env w = (res, w') \<Longrightarrow> writable w' = writable w"
  by (auto simp: getParentPidWindows_def split: if_splits list.splits
      dest: print_then_fail_Inl snapshot_walk_writable)

lemma snapshot_walk_not_found:
  "writable w \<Longrightarrow> pid \<notin> th32ProcessID ` set es \<Longrightarrow>
     \<exists>e. fst (snapshot_walk pid err es w) = Inl e"
proof (induction es)
  case Nil
  from print_then_fail_writable [OF Nil(1), of "msg_next_failed err" "''Process32NextFailed''"]
  show ?case by auto
next
  case (Cons pe es)
  then show ?case by simp
qed

lemma snapshot_walk_parent_zero:
  "writable w \<Longrightarrow> pid \<notin> th32ProcessID ` set pre \<Longrightarrow> th32ProcessID pe = pid \<Longrightarrow>
     th32ParentProcessID pe = 0 \<Longrightarrow>
     fst (snapshot_walk pid err (pre @ pe # post) w) = Inl ''ParentIsSystemIdleProcess''"
proof (induction pre)
  case Nil
  from print_then_fail_writable [OF Nil(1), of "msg_parent_zero pid" "''ParentIsSystemIdleProcess''"]
    Nil(3,4)
  show ?case by auto
next
  case (Cons a pre)
  then show ?case by simp
qed

lemma tick_no_monitoring:
  "\<not> parent_monitoring_active vars \<Longrightarrow> tick vars io te = Exit r \<Longrightarrow> outcome r \<noteq> ParentGone"
  by (auto simp: tick_def parent_check_def signal_check_def split: if_splits sum.splits option.splits)

lemma wait_loop_no_monitoring:
  "\<not> parent_monitoring_active vars \<Longrightarrow> wait_loop vars io ticks = Some r \<Longrightarrow>
     outcome r \<noteq> ParentGone"
proof (induction ticks arbitrary: io)
  case Nil
  then show ?case by simp
next
  case (Cons te rest)
  show ?case
  proof (cases "tick vars io te")
    case (Exit ended)
    with Cons.prems tick_no_monitoring [of vars io te r] show ?thesis by simp
  next
    case (Sleep ns io')
    with Cons.prems Cons.IH [of io'] show ?thesis by simp
  qed
qed

text \<open>
  Claim C8. On Windows, when the program has got as far as looking for its parent and
  \<^verbatim>\<open>getParentPidWindows\<close> fails, for whatever reason, a warning is printed, monitoring
  is switched off, and the program enters the loop; the run then never ends with
  \<open>ParentGone\<close>. The helper fails in particular when the snapshot cannot be taken, when
  no entry has the id of this process, and when the entry of this process names 0 as
  its parent. The diagnostic stream is taken to be writable.
\<close>

theorem windows_unknown_parent_disables_monitoring:
  assumes "os env = Windows" "stderr_writable env" "announce env = Inr (io, dir)"
    "path_join env [dir, ''0''] = Inr p"
  shows "(\<forall>err ew. getParentPidWindows env (stderr io) = (Inl err, ew) \<longrightarrow>
            (\<exists>io' vars. resolve_parent env io p = Inr (io', vars) \<and>
               \<not> parent_monitoring_active vars \<and>
               emitted (stderr io') = emitted ew @ msg_monitoring_disabled err \<and>
               main env ticks = wait_loop vars io' ticks \<and>
               (\<forall>r. main env ticks = Some r \<longrightarrow> outcome r \<noteq> ParentGone))) \<and>
         (\<not> snapshot_valid env \<longrightarrow>
            fst (getParentPidWindows env (stderr io)) = Inl ''SnapshotFailed'') \<and>
         (snapshot_valid env \<and> own_pid env \<notin> th32ProcessID ` set (snapshot_entries env) \<longrightarrow>
            (\<exists>e. fst (getParentPidWindows env (stderr io)) = Inl e)) \<and>
         (\<forall>pre pe post. snapshot_valid env \<and> snapshot_entries env = pre @ pe # post \<and>
            own_pid env \<notin> th32ProcessID ` set pre \<and> th32ProcessID pe = own_pid env \<and>
            th32ParentProcessID pe = 0 \<longrightarrow>
            fst (getParentPidWindows env (stderr io)) = Inl ''ParentIsSystemIdleProcess'')"
proof -
  from announce_Inr [OF assms(3)] assms(2) have w: "writable (stderr io)"
    by (auto simp: new_writer_def)
  have A: "\<exists>io' vars. resolve_parent env io p = Inr (io', vars) \<and>
               \<not> parent_monitoring_active vars \<and>
               emitted (stderr io') = emitted ew @ msg_monitoring_disabled err \<and>
               main env ticks = wait_loop vars io' ticks \<and>
               (\<forall>r. main env ticks = Some r \<longrightarrow> outcome r \<noteq> ParentGone)"
    if g: "getParentPidWindows env (stderr io) = (Inl err, ew)" for err ew
  proof -
    from getParentPidWindows_writable [OF g] w have "writable ew" by simp
    from print_writable [OF this] obtain ew' where
      pr: "print ew (msg_monitoring_disabled err) = Inr ew'" by blast
    let ?vars = "\<lparr>os_of = os env, start_time = start_clock env, signal_file_path = p,
                  ppid = 0, win_ppid = 0, parent_monitoring_active = False\<rparr>"
    let ?io' = "io\<lparr>stderr := ew'\<rparr>"
    from assms(1) g pr have r: "resolve_parent env io p = Inr (?io', ?vars)"
      by (simp add: resolve_parent_def)
    have m: "main env ticks = wait_loop ?vars ?io' ticks"
      by (simp add: main_def assms(3) make_signal_path_ok [OF assms(4)] r)
    have n: "\<forall>r. main env ticks = Some r \<longrightarrow> outcome r \<noteq> ParentGone"
      using m wait_loop_no_monitoring [of ?vars ?io' ticks] by simp
    from print_Inr [OF pr] have e: "emitted (stderr ?io') = emitted ew @ msg_monitoring_disabled err"
      by simp
    have "\<not> parent_monitoring_active ?vars" by simp
    with r e m n show ?thesis by blast
  qed
  have B: "fst (getParentPidWindows env (stderr io)) = Inl ''SnapshotFailed''"
    if "\<not> snapshot_valid env"
    using that
      print_then_fail_writable [OF w, of "msg_snapshot_failed (last_error env)" "''SnapshotFailed''"]
    by (auto simp: getParentPidWindows_def)
  have walk: "getParentPidWindows env (stderr io) =
      snapshot_walk (own_pid env) (last_error env) (snapshot_entries env) (stderr io)"
    if "snapshot_valid env" "snapshot_entries env \<noteq> []"
    using that by (simp add: getParentPidWindows_def split: list.splits)
  have C: "\<exists>e. fst (getParentPidWindows env (stderr io)) = Inl e"
    if v: "snapshot_valid env" and n: "own_pid env \<notin> th32ProcessID ` set (snapshot_entries env)"
  proof (cases "snapshot_entries env = []")
    case True
    with v
      print_then_fail_writable [OF w, of "msg_first_failed (last_error env)" "''Process32FirstFailed''"]
    show ?thesis by (auto simp: getParentPidWindows_def)
  next
    case False
    from walk [OF v False] snapshot_walk_not_found [OF w n] show ?thesis by simp
  qed
  have D: "fst (getParentPidWindows env (stderr io)) = Inl ''ParentIsSystemIdleProcess''"
    if v: "snapshot_valid env" and s: "snapshot_entries env = pre @ pe # post"
      and n: "own_pid env \<notin> th32ProcessID ` set pre" and i: "th32ProcessID pe = own_pid env"
      and z: "th32ParentProcessID pe = 0" for pre pe post
  proof -
    from s have "snapshot_entries env \<noteq> []" by simp
    from walk [OF v this] s snapshot_walk_parent_zero [OF w n i z] show ?thesis by simp
  qed
  show ?thesis
  proof (intro conjI allI impI)
    fix err ew
    assume "getParentPidWindows env (stderr io) = (Inl err, ew)"
    then show "\<exists>io' vars. resolve_parent env io p = Inr (io', vars) \<and>
               \<not> parent_monitoring_active vars \<and>
               emitted (stderr io') = emitted ew @ msg_monitoring_disabled err \<and>
               main env ticks = wait_loop vars io' ticks \<and>
               (\<forall>r. main env ticks = Some r \<longrightarrow> outcome r \<noteq> ParentGone)"
      by (rule A)
  next
    assume "\<not> snapshot_valid env"
    then show "fst (getParentPidWindows env (stderr io)) = Inl ''SnapshotFailed''" by (rule B)
  next
    assume "snapshot_valid env \<and> own_pid env \<notin> th32ProcessID ` set (snapshot_entries env)"
    then show "\<exists>e. fst (getParentPidWindows env (stderr io)) = Inl e" using C by blast
  next
    fix pre pe post
    assume "snapshot_valid env \<and> snapshot_entries env = pre @ pe # post \<and>
            own_pid env \<notin> th32ProcessID ` set pre \<and> th32ProcessID pe = own_pid env \<and>
            th32ParentProcessID pe = 0"
    then show "fst (getParentPidWindows env (stderr io)) = Inl ''ParentIsSystemIdleProcess''"
      using D by blast
  qed
qed

lemma example_windows_announce:
  "announce example_env_windows = Inr (example_streams, ''/tmp/sig42'')"
  by (simp add: announce_def example_env_windows_def example_env_def Let_def print_def
      new_writer_def fmt_int_def digits_4242 nl_def argsAlloc_def envVarName_def sentinel_def
      flush_def BUFFER_SIZE_def example_streams_def example_stdout_def)

lemma example_windows_snapshot:
  "getParentPidWindows example_env_windows (stderr example_streams) =
     (Inl ''SnapshotFailed'', \<lparr>buffer = msg_snapshot_failed 5, written = [], writable = True\<rparr>)"
  by (simp add: getParentPidWindows_def print_then_fail_def print_def example_env_windows_def
      example_env_def example_streams_def msg_snapshot_failed_def digits.simps digit_def nl_def
      BUFFER_SIZE_def)

theorem windows_unknown_parent_disables_monitoring_witness:
  "os example_env_windows = Windows \<and> stderr_writable example_env_windows \<and>
   announce example_env_windows = Inr (example_streams, ''/tmp/sig42'') \<and>
   path_join example_env_windows [''/tmp/sig42'', ''0''] = Inr ''/tmp/sig42/0'' \<and>
   \<not> snapshot_valid example_env_windows \<and>
   fst (getParentPidWindows example_env_windows (stderr example_streams)) = Inl ''SnapshotFailed'' \<and>
   (\<exists>io' vars. resolve_parent example_env_windows example_streams ''/tmp/sig42/0'' = Inr (io', vars) \<and>
      \<not> parent_monitoring_active vars \<and>
      emitted (stderr io') = msg_snapshot_failed 5 @ msg_monitoring_disabled ''SnapshotFailed'' \<and>
      main example_env_windows example_ticks = wait_loop vars io' example_ticks)"
proof -
  have h: "os example_env_windows = Windows" "stderr_writable example_env_windows"
    "path_join example_env_windows [''/tmp/sig42'', ''0''] = Inr ''/tmp/sig42/0''"
    "\<not> snapshot_valid example_env_windows"
    by (simp_all add: example_env_windows_def example_env_def)
  note t = windows_unknown_parent_disables_monitoring
    [OF h(1,2) example_windows_announce h(3), of example_ticks]
  from t h(4) have 1: "fst (getParentPidWindows example_env_windows (stderr example_streams)) =
      Inl ''SnapshotFailed''"
    by blast
  have e: "emitted \<lparr>buffer = msg_snapshot_failed 5, written = [], writable = True\<rparr> =
      msg_snapshot_failed 5"
    by (simp add: emitted_def)
  from t example_windows_snapshot
  obtain io' vars where
    "resolve_parent example_env_windows example_streams ''/tmp/sig42/0'' = Inr (io', vars)"
    "\<not> parent_monitoring_active vars"
    "emitted (stderr io') = emitted \<lparr>buffer = msg_snapshot_failed 5, written = [], writable = True\<rparr>
       @ msg_monitoring_disabled ''SnapshotFailed''"
    "main example_env_windows example_ticks = wait_loop vars io' example_ticks"
    by blast
  with e have 2: "\<exists>io' vars.
      resolve_parent example_env_windows example_streams ''/tmp/sig42/0'' = Inr (io', vars) \<and>
      \<not> parent_monitoring_active vars \<and>
      emitted (stderr io') = msg_snapshot_failed 5 @ msg_monitoring_disabled ''SnapshotFailed'' \<and>
      main example_env_windows example_ticks = wait_loop vars io' example_ticks"
    by auto
  from h(1,2) example_windows_announce h(3,4) 1 2 show ?thesis by (intro conjI)
qed

section \<open>Flushing on exit\<close>

lemma flushAndExit_flushed:
  "writable (stdout io) \<Longrightarrow> writable (stderr io) \<Longrightarrow>
     buffer (stdout (final (flushAndExit oc io code))) = [] \<and>
     buffer (stderr (final (flushAndExit oc io code))) = []"
  by (simp add: flush_catch_writable)

lemma print_args_Inr_writable: "print_args w args = Inr w' \<Longrightarrow> writable w' = writable w"
  by (simp add: print_args_Inr)

lemma announce_flushed:
  assumes "stdout_writable env" "stderr_writable env"
  shows "(case announce env of
            Inl r \<Rightarrow> (\<forall>e. outcome r \<noteq> ErrorReturn e) \<longrightarrow>
              buffer (stdout (final r)) = [] \<and> buffer (stderr (final r)) = []
          | Inr (io, dir) \<Rightarrow> writable (stdout io) \<and> writable (stderr io))"
  using assms
  by (auto simp: announce_def Let_def new_writer_def flush_catch_writable
      split: sum.splits prod.splits
      dest!: print_Inr print_args_Inr_writable flush_Inr)

lemma make_signal_path_flushed:
  "writable (stdout io) \<Longrightarrow> writable (stderr io) \<Longrightarrow> make_signal_path env io dir = Inl r \<Longrightarrow>
     (\<forall>e. outcome r \<noteq> ErrorReturn e) \<Longrightarrow>
     buffer (stdout (final r)) = [] \<and> buffer (stderr (final r)) = []"
  by (auto simp: make_signal_path_def flush_catch_writable split: sum.splits dest!: print_Inr)

lemma resolve_parent_flushed:
  assumes "writable (stdout io)" "writable (stderr io)"
  shows "(case resolve_parent env io p of
            Inl r \<Rightarrow> (\<forall>e. outcome r \<noteq> ErrorReturn e) \<longrightarrow>
              buffer (stdout (final r)) = [] \<and> buffer (stderr (final r)) = []
          | Inr (io', vars) \<Rightarrow> writable (stdout io') \<and> writable (stderr io'))"
  using assms
  by (auto simp: resolve_parent_def Let_def flush_catch_writable
      split: sum.splits prod.splits if_splits
      dest!: print_Inr getParentPidWindows_writable)

lemma parent_check_flushed:
  assumes "writable (stdout io)" "writable (stderr io)"
  shows "(case parent_check vars io te of
            Inl r \<Rightarrow> (\<forall>e. outcome r \<noteq> ErrorReturn e) \<longrightarrow>
              buffer (stdout (final r)) = [] \<and> buffer (stderr (final r)) = []
          | Inr io' \<Rightarrow> writable (stdout io') \<and> writable (stderr io'))"
proof (cases "parent_monitoring_active vars \<and> os_of vars = Windows")
  case True
  from parentProcessExistsWindows_writable [OF assms(2), of te "win_ppid vars"]
  obtain alive w' where
    e: "parentProcessExistsWindows te (win_ppid vars) (stderr io) = Inr (alive, w')" and
    w: "writable w'" by blast
  from print_writable [OF w] obtain w'' where
    p: "print w' (msg_parent_gone_windows (win_ppid vars)) = Inr w''" by blast
  from print_Inr [OF p] w have "writable w''" by simp
  with True e p w assms(1) show ?thesis
    by (simp add: parent_check_def flush_catch_writable)
next
  case False
  from print_writable [OF assms(2)] obtain w' where
    p: "print (stderr io) (msg_parent_gone_posix (ppid vars)) = Inr w'" by blast
  from print_Inr [OF p] assms(2) have "writable w'" by simp
  with False p assms show ?thesis
    by (auto simp: parent_check_def flush_catch_writable split: option.splits)
qed

lemma signal_check_flushed:
  assumes "writable (stdout io)" "writable (stderr io)"
  shows "(case signal_check vars io te of
            Exit r \<Rightarrow> (\<forall>e. outcome r \<noteq> ErrorReturn e) \<longrightarrow>
              buffer (stdout (final r)) = [] \<and> buffer (stderr (final r)) = []
          | Sleep ns io' \<Rightarrow> writable (stdout io') \<and> writable (stderr io'))"
  using assms
  by (auto simp: signal_check_def flush_catch_writable split: sum.splits option.splits
      dest!: print_Inr)

lemma tick_flushed:
  assumes "writable (stdout io)" "writable (stderr io)"
  shows "(case tick vars io te of
            Exit r \<Rightarrow> (\<forall>e. outcome r \<noteq> ErrorReturn e) \<longrightarrow>
              buffer (stdout (final r)) = [] \<and> buffer (stderr (final r)) = []
          | Sleep ns io' \<Rightarrow> writable (stdout io') \<and> writable (stderr io'))"
proof (cases "elapsed_ms vars te \<ge> int TOTAL_TIMEOUT_MS")
  case True
  with assms show ?thesis
    by (auto simp: tick_def flush_catch_writable split: sum.splits dest!: print_Inr)
next
  case False
  show ?thesis
  proof (cases "parent_check vars io te")
    case (Inl ended)
    with False parent_check_flushed [OF assms, of vars te] show ?thesis by (simp add: tick_def)
  next
    case (Inr io')
    with parent_check_flushed [OF assms, of vars te]
    have "writable (stdout io')" "writable (stderr io')" by simp_all
    from signal_check_flushed [OF this, of vars te] Inr False show ?thesis
      by (simp add: tick_def)
  qed
qed

lemma wait_loop_flushed:
  "writable (stdout io) \<Longrightarrow> writable (stderr io) \<Longrightarrow> wait_loop vars io ticks = Some r \<Longrightarrow>
     (\<forall>e. outcome r \<noteq> ErrorReturn e) \<Longrightarrow>
     buffer (stdout (final r)) = [] \<and> buffer (stderr (final r)) = []"
proof (induction ticks arbitrary: io)
  case Nil
  then show ?case by simp
next
  case (Cons te rest)
  show ?case
  proof (cases "tick vars io te")
    case (Exit ended)
    with Cons.prems tick_flushed [OF Cons.prems(1,2), of vars te] show ?thesis by simp
  next
    case (Sleep ns io')
    with tick_flushed [OF Cons.prems(1,2), of vars te]
    have "writable (stdout io')" "writable (stderr io')" by simp_all
    moreover from Sleep Cons.prems have "wait_loop vars io' rest = Some r" by simp
    ultimately show ?thesis using Cons.IH Cons.prems(4) by blast
  qed
qed

text \<open>What does hold: a run that ends in \<^verbatim>\<open>flushAndExit\<close>, with both streams writable,
  leaves nothing in either buffer.\<close>

lemma flushAndExit_paths_flushed:
  assumes "main env ticks = Some r" "stdout_writable env" "stderr_writable env"
    "\<forall>e. outcome r \<noteq> ErrorReturn e"
  shows "buffer (stdout (final r)) = [] \<and> buffer (stderr (final r)) = []"
proof (cases "announce env")
  case (Inl ended)
  with assms(1) have "ended = r" by (simp add: main_def)
  with Inl announce_flushed [OF assms(2,3)] assms(4) show ?thesis by simp
next
  case (Inr a)
  obtain io dir where a: "a = (io, dir)" by (cases a)
  note ann = Inr [unfolded a]
  with announce_flushed [OF assms(2,3)] have w: "writable (stdout io)" "writable (stderr io)"
    by simp_all
  show ?thesis
  proof (cases "make_signal_path env io dir")
    case (Inl ended)
    with assms(1) ann have "ended = r" by (simp add: main_def)
    with Inl make_signal_path_flushed [OF w] assms(4) show ?thesis by blast
  next
    case path: (Inr p)
    show ?thesis
    proof (cases "resolve_parent env io p")
      case (Inl ended)
      with assms(1) ann path have "ended = r" by (simp add: main_def)
      with Inl resolve_parent_flushed [OF w, of env p] assms(4) show ?thesis by simp
    next
      case (Inr b)
      obtain io' vars where b: "b = (io', vars)" by (cases b)
      note res = Inr [unfolded b]
      with resolve_parent_flushed [OF w, of env p]
      have w': "writable (stdout io')" "writable (stderr io')" by simp_all
      from assms(1) ann path res have "wait_loop vars io' ticks = Some r" by (simp add: main_def)
      from wait_loop_flushed [OF w' this assms(4)] show ?thesis .
    qed
  qed
qed

text \<open>
  Claim C3 fails on the code. Every \<^verbatim>\<open>flushAndExit\<close> flushes both streams, as the
  lemma above shows, but an error that \<^verbatim>\<open>try\<close> returns from \<^verbatim>\<open>main\<close> ends the
  process without a flush. When the
  working directory cannot be determined, which the specification counts as a setup
  error, the process id line has been printed into the buffer and is never written:
  at the end of the run it is still in the buffer of a writable stream.
\<close>

theorem cwd_failure_leaves_stdout_unflushed:
  "main example_env_cwd_unlinked [] =
     Some \<lparr>outcome = ErrorReturn ''CurrentWorkingDirectoryUnlinked'', exit_status = 1,
           final = \<lparr>stdout = \<lparr>buffer = ''4242'' @ nl, written = [], writable = True\<rparr>,
                    stderr = \<lparr>buffer = [], written = [], writable = True\<rparr>\<rparr>\<rparr>"
  by (simp add: main_def announce_def example_env_cwd_unlinked_def example_env_def Let_def
      print_def new_writer_def fmt_int_def digits_4242 nl_def BUFFER_SIZE_def error_return_def)

end
